theory Spec2Isabelle
  imports Main "HOL-Library.Multiset"
begin

section \<open>JavaScript values\<close>

text \<open>
  The library is written in TypeScript and its attribute values, query operands and JSON
  inputs all have the static type \<^verbatim>\<open>unknown\<close>. They are modelled by one datatype of
  JavaScript values. The fragment covered:
  \<^item> numbers are the integer-valued numbers (\<open>Num n\<close>; meant for the safe range, where a
    double is exactly an integer; \<open>NaN\<close>, infinities and fractions are not values of the model);
  \<^item> strings are lists of \<open>char\<close> (the Latin-1 range, one \<open>char\<close> per code unit);
  \<^item> a plain object is the list of its own properties in \<^verbatim>\<open>Object.entries\<close> order, with
    distinct keys; a \<^verbatim>\<open>Document\<close> instance is \<open>DocV data\<close>, its private field \<^verbatim>\<open>data\<close>;
  \<^item> a \<^verbatim>\<open>Query\<close> instance is \<open>QueryV q\<close>. The constructor of \<^verbatim>\<open>Query\<close> stores, for the
    methods \<^verbatim>\<open>and\<close> and \<^verbatim>\<open>or\<close>, only \<^verbatim>\<open>Query\<close> instances; the two constructors of
    \<open>query\<close> record which of the two kinds of operand list an instance holds.
  Object identity is not part of a value: two values are the same term when they have the
  same content.
\<close>

datatype jsval =
    Undefined
  | Null
  | Bool bool
  | Num int
  | Str string
  | Arr "jsval list"
  | Obj "(string \<times> jsval) list"
  | DocV "(string \<times> jsval) list"
  | QueryV query
and query =
    Plain string jsval "jsval list"
  | Logical string jsval "query list"

type_synonym DocumentData = "(string \<times> jsval) list"

datatype error = TypeError string | Error string

subsection \<open>Type tests and property access\<close>

fun isString :: "jsval \<Rightarrow> bool" where
  "isString (Str s) = True"
| "isString v = False"

fun isNumber :: "jsval \<Rightarrow> bool" where
  "isNumber (Num n) = True"
| "isNumber v = False"

fun isArray :: "jsval \<Rightarrow> bool" where
  "isArray (Arr items) = True"
| "isArray v = False"

fun arrayItems :: "jsval \<Rightarrow> jsval list" where
  "arrayItems (Arr items) = items"
| "arrayItems v = []"

text \<open>\<^verbatim>\<open>v === undefined || v === null\<close>.\<close>

fun nullish :: "jsval \<Rightarrow> bool" where
  "nullish Undefined = True"
| "nullish Null = True"
| "nullish v = False"

text \<open>\<^verbatim>\<open>typeof v === 'object' && v !== null\<close>.\<close>

fun isObject :: "jsval \<Rightarrow> bool" where
  "isObject (Arr items) = True"
| "isObject (Obj props) = True"
| "isObject (DocV d) = True"
| "isObject (QueryV q) = True"
| "isObject v = False"

text \<open>Truthiness, as tested by \<^verbatim>\<open>if (v)\<close>.\<close>

fun truthy :: "jsval \<Rightarrow> bool" where
  "truthy Undefined = False"
| "truthy Null = False"
| "truthy (Bool b) = b"
| "truthy (Num n) = (n \<noteq> 0)"
| "truthy (Str s) = (s \<noteq> [])"
| "truthy v = True"

text \<open>\<^verbatim>\<open>obj[key] = v\<close> on a plain object: an existing key keeps its place, a new one goes last.\<close>

fun set_prop :: "string \<Rightarrow> jsval \<Rightarrow> DocumentData \<Rightarrow> DocumentData" where
  "set_prop k v [] = [(k, v)]"
| "set_prop k v ((k', v') # ps) = (if k = k' then (k, v) # ps else (k', v') # set_prop k v ps)"

text \<open>\<^verbatim>\<open>delete obj[key]\<close>.\<close>

fun delete_prop :: "string \<Rightarrow> DocumentData \<Rightarrow> DocumentData" where
  "delete_prop k [] = []"
| "delete_prop k ((k', v') # ps) = (if k = k' then delete_prop k ps else (k', v') # delete_prop k ps)"

text \<open>\<^verbatim>\<open>key in obj\<close> and \<^verbatim>\<open>hasOwnProperty\<close> (the keys used are never inherited ones).\<close>

fun has_prop :: "string \<Rightarrow> DocumentData \<Rightarrow> bool" where
  "has_prop k [] = False"
| "has_prop k ((k', v) # ps) = (k = k' \<or> has_prop k ps)"

text \<open>\<^verbatim>\<open>obj[key]\<close>: \<open>Undefined\<close> for a missing property.\<close>

fun get_prop :: "string \<Rightarrow> DocumentData \<Rightarrow> jsval" where
  "get_prop k [] = Undefined"
| "get_prop k ((k', v) # ps) = (if k = k' then v else get_prop k ps)"

fun getMethod :: "query \<Rightarrow> string" where
  "getMethod (Plain m a vs) = m"
| "getMethod (Logical m a qs) = m"

fun getAttributeQ :: "query \<Rightarrow> jsval" where
  "getAttributeQ (Plain m a vs) = a"
| "getAttributeQ (Logical m a qs) = a"

fun getValues :: "query \<Rightarrow> jsval list" where
  "getValues (Plain m a vs) = vs"
| "getValues (Logical m a qs) = map QueryV qs"

text \<open>
  \<^verbatim>\<open>v.key\<close> for a value \<open>v\<close> that is not null or undefined, at the keys
  \<^verbatim>\<open>method\<close>, \<^verbatim>\<open>attribute\<close> and \<^verbatim>\<open>values\<close> that \<^verbatim>\<open>fromJSON\<close> reads
  (a \<^verbatim>\<open>Query\<close> instance has them as its fields; arrays, documents and primitives have no
  such data property).
\<close>

fun member :: "string \<Rightarrow> jsval \<Rightarrow> jsval" where
  "member k (Obj props) = get_prop k props"
| "member k (QueryV q) =
     (if k = ''method'' then Str (getMethod q)
      else if k = ''attribute'' then getAttributeQ q
      else if k = ''values'' then Arr (getValues q)
      else Undefined)"
| "member k v = Undefined"

section \<open>Document: export\<close>

text \<open>\<^verbatim>\<open>getId()\<close>: \<^verbatim>\<open>(this.data.$id as string) ?? ''\<close>.\<close>

definition getId :: "DocumentData \<Rightarrow> jsval" where
  "getId d = (if nullish (get_prop ''$id'' d) then Str [] else get_prop ''$id'' d)"

definition getCollection :: "DocumentData \<Rightarrow> jsval" where
  "getCollection d =
     (if nullish (get_prop ''$collection'' d) then Str [] else get_prop ''$collection'' d)"

text \<open>
  \<^verbatim>\<open>Document.toJSON()\<close>. The loop over \<^verbatim>\<open>Object.entries(this.data)\<close> is
  \<open>toJSON_into\<close>, with the \<^verbatim>\<open>result\<close> object as accumulator. A value that is a Document
  is exported recursively; in an array, the items that are Documents are; every other
  value, a plain object or an array inside an array included, is stored as it is.
\<close>

fun toJSON_into :: "DocumentData \<Rightarrow> DocumentData \<Rightarrow> DocumentData"
  and exportValue :: "jsval \<Rightarrow> jsval"
  and exportItems :: "jsval list \<Rightarrow> jsval list"
where
  "toJSON_into result [] = result"
| "toJSON_into result ((key, v) # rest) = toJSON_into (set_prop key (exportValue v) result) rest"
| "exportValue (DocV d) = Obj (toJSON_into [] d)"
| "exportValue (Arr items) = Arr (exportItems items)"
| "exportValue v = v"
| "exportItems [] = []"
| "exportItems (DocV d # items) = Obj (toJSON_into [] d) # exportItems items"
| "exportItems (item # items) = item # exportItems items"

definition toJSON :: "DocumentData \<Rightarrow> DocumentData" where
  "toJSON d = toJSON_into [] d"

section \<open>Query: export\<close>

text \<open>
  \<^verbatim>\<open>Query.toJSON()\<close>: the attribute is written only when truthy; the operands of
  \<^verbatim>\<open>and\<close>/\<^verbatim>\<open>or\<close> are exported recursively; among the other operands a Document is
  replaced by \<^verbatim>\<open>getId()\<close>.
\<close>

fun reduceDocument :: "jsval \<Rightarrow> jsval" where
  "reduceDocument (DocV d) = getId d"
| "reduceDocument v = v"

fun Query_toJSON :: "query \<Rightarrow> DocumentData" where
  "Query_toJSON (Plain m a vs) =
     [(''method'', Str m)] @ (if truthy a then [(''attribute'', a)] else [])
       @ [(''values'', Arr (map reduceDocument vs))]"
| "Query_toJSON (Logical m a qs) =
     [(''method'', Str m)] @ (if truthy a then [(''attribute'', a)] else [])
       @ [(''values'', Arr (map (\<lambda>q. Obj (Query_toJSON q)) qs))]"

subsection \<open>Termination weights\<close>

text \<open>
  A weight on values that no export makes larger, and under which a \<^verbatim>\<open>Query\<close> instance
  outweighs the plain object built from its fields. It is the measure of the recursive
  functions below whose calls are not on subterms.
\<close>

fun wt :: "jsval \<Rightarrow> nat" and wts :: "jsval list \<Rightarrow> nat"
  and wte :: "DocumentData \<Rightarrow> nat" and wtq :: "query \<Rightarrow> nat" and wtqs :: "query list \<Rightarrow> nat"
where
  "wt (Arr xs) = 1 + wts xs"
| "wt (Obj es) = 1 + wte es"
| "wt (DocV es) = 1 + wte es"
| "wt (QueryV q) = 1 + wtq q"
| "wt v = 0"
| "wts [] = 0"
| "wts (x # xs) = 1 + wt x + wts xs"
| "wte [] = 0"
| "wte ((k, v) # es) = 1 + wt v + wte es"
| "wtq (Plain m a vs) = 7 + wt a + wts vs"
| "wtq (Logical m a qs) = 7 + wt a + wtqs qs"
| "wtqs [] = 0"
| "wtqs (q # qs) = 2 + wtq q + wtqs qs"

lemma wte_set_prop: "wte (set_prop k v d) \<le> wte d + 1 + wt v"
  by (induction d) auto

lemma wt_get_prop: "wt (get_prop k d) \<le> wte d"
  by (induction d) auto

lemma wts_map_QueryV: "wts (map QueryV qs) = wtqs qs"
  by (induction qs) auto

lemma wts_getValues: "wts (getValues q) + wt (getAttributeQ q) + 7 = wtq q"
  by (cases q) (auto simp: wts_map_QueryV)

lemma wt_export:
  "wte (toJSON_into r d) \<le> wte r + wte d"
  "wt (exportValue v) \<le> wt v"
  "wts (exportItems xs) \<le> wts xs"
proof (induction r d and v and xs rule: toJSON_into_exportValue_exportItems.induct)
  case (2 result key v rest)
  have "wte (set_prop key (exportValue v) result) \<le> wte result + 1 + wt (exportValue v)"
    by (rule wte_set_prop)
  with 2 show ?case by simp
qed auto

lemma wte_toJSON: "wte (toJSON d) \<le> wte d"
  using wt_export(1)[of "[]" d] by (simp add: toJSON_def)

lemma wt_reduceDocument: "wt (reduceDocument v) \<le> wt v"
  using wt_get_prop [of "''$id''"] by (cases v) (auto simp: getId_def intro: le_SucI)

lemma wts_map_reduceDocument: "wts (map reduceDocument vs) \<le> wts vs"
  using wt_reduceDocument by (induction vs) (auto intro: add_mono)

lemma wte_Query_toJSON: "wte (Query_toJSON q) + 2 \<le> wtq q"
proof (induction q rule: Query_toJSON.induct)
  case (1 m a vs)
  show ?case using wts_map_reduceDocument [of vs] by simp
next
  case (2 m a qs)
  have "wts (map (\<lambda>q. Obj (Query_toJSON q)) qs) \<le> wtqs qs"
    using 2
  proof (induction qs)
    case Nil
    show ?case by simp
  next
    case (Cons x xs)
    have "wte (Query_toJSON x) + 2 \<le> wtq x"
      using Cons.prems by simp
    moreover have "wts (map (\<lambda>q. Obj (Query_toJSON q)) xs) \<le> wtqs xs"
      using Cons by simp
    ultimately show ?case by simp
  qed
  then show ?case by simp
qed

section \<open>String coercion and JSON text\<close>

text \<open>
  \<^verbatim>\<open>JSON.stringify\<close>: \<open>None\<close> is the result \<^verbatim>\<open>undefined\<close>; an undefined array item
  is written \<^verbatim>\<open>null\<close>, an undefined property is left out, and an object with a
  \<^verbatim>\<open>toJSON\<close> method (a Document, a Query) is replaced by what the method returns.
  \<^verbatim>\<open>String(v)\<close> is \<open>js_String\<close>: an array joins its items with commas, an object without
  \<^verbatim>\<open>toString\<close> of its own gives \<^verbatim>\<open>[object Object]\<close>, a Query its \<^verbatim>\<open>toString()\<close>.
\<close>

fun digit_char :: "nat \<Rightarrow> char" where
  "digit_char n = (if n < 10 then char_of (48 + n) else char_of (87 + n))"

fun nat_digits :: "nat \<Rightarrow> string" where
  "nat_digits n =
     (if n < 10 then [digit_char n] else nat_digits (n div 10) @ [digit_char (n mod 10)])"

declare nat_digits.simps [simp del]

definition int_string :: "int \<Rightarrow> string" where
  "int_string i = (if i < 0 then CHR ''-'' # nat_digits (nat (- i)) else nat_digits (nat i))"

fun join_comma :: "string list \<Rightarrow> string" where
  "join_comma [] = []"
| "join_comma [s] = s"
| "join_comma (s # t # ts) = s @ '','' @ join_comma (t # ts)"

definition escape_char :: "char \<Rightarrow> string" where
  "escape_char c =
     (let n = (of_char c :: nat) in
      if n = 34 then [char_of (92::nat), char_of (34::nat)]
      else if n = 92 then [char_of (92::nat), char_of (92::nat)]
      else if n = 8 then [char_of (92::nat), CHR ''b'']
      else if n = 12 then [char_of (92::nat), CHR ''f'']
      else if n = 10 then [char_of (92::nat), CHR ''n'']
      else if n = 13 then [char_of (92::nat), CHR ''r'']
      else if n = 9 then [char_of (92::nat), CHR ''t'']
      else if n < 32 then
        [char_of (92::nat), CHR ''u'', CHR ''0'', CHR ''0'', digit_char (n div 16), digit_char (n mod 16)]
      else [c])"

definition quote :: "string \<Rightarrow> string" where
  "quote s = char_of (34::nat) # concat (map escape_char s) @ [char_of (34::nat)]"

function stringify :: "jsval \<Rightarrow> string option"
  and stringify_items :: "jsval list \<Rightarrow> string list"
  and stringify_props :: "DocumentData \<Rightarrow> string list"
where
  "stringify Undefined = None"
| "stringify Null = Some ''null''"
| "stringify (Bool b) = Some (if b then ''true'' else ''false'')"
| "stringify (Num n) = Some (int_string n)"
| "stringify (Str s) = Some (quote s)"
| "stringify (Arr items) = Some (''['' @ join_comma (stringify_items items) @ '']'')"
| "stringify (Obj props) = Some (''{'' @ join_comma (stringify_props props) @ ''}'')"
| "stringify (DocV d) = stringify (Obj (toJSON d))"
| "stringify (QueryV q) = stringify (Obj (Query_toJSON q))"
| "stringify_items [] = []"
| "stringify_items (v # vs) =
     (case stringify v of None \<Rightarrow> ''null'' | Some t \<Rightarrow> t) # stringify_items vs"
| "stringify_props [] = []"
| "stringify_props ((k, v) # ps) =
     (case stringify v of
        None \<Rightarrow> stringify_props ps
      | Some t \<Rightarrow> (quote k @ '':'' @ t) # stringify_props ps)"
  by pat_completeness auto
termination
proof (relation "measure (case_sum (\<lambda>v. 2 * wt v + (case v of DocV d \<Rightarrow> 1 | _ \<Rightarrow> 0))
    (case_sum (\<lambda>vs. 2 * wts vs) (\<lambda>ps. 2 * wte ps)))", goal_cases)
  case (4 d)
  then show ?case using wte_toJSON [of d] by simp
next
  case (5 q)
  then show ?case using wte_Query_toJSON [of q] by simp
qed (simp_all split: jsval.split)

text \<open>\<^verbatim>\<open>Query.toString()\<close>: \<^verbatim>\<open>JSON.stringify(this.toJSON())\<close>.\<close>

definition Query_toString :: "query \<Rightarrow> string" where
  "Query_toString q = (case stringify (Obj (Query_toJSON q)) of Some t \<Rightarrow> t | None \<Rightarrow> ''undefined'')"

fun js_String :: "jsval \<Rightarrow> string" where
  "js_String Undefined = ''undefined''"
| "js_String Null = ''null''"
| "js_String (Bool b) = (if b then ''true'' else ''false'')"
| "js_String (Num n) = int_string n"
| "js_String (Str s) = s"
| "js_String (Arr items) =
     join_comma (map (\<lambda>v. if nullish v then [] else js_String v) items)"
| "js_String (Obj props) = ''[object Object]''"
| "js_String (DocV d) = ''[object Object]''"
| "js_String (QueryV q) = Query_toString q"

section \<open>Document: construction and normalisation\<close>

text \<open>
  \<^verbatim>\<open>prepareValue\<close> and the loop of \<^verbatim>\<open>replace\<close> (which is the constructor, run on an empty
  \<^verbatim>\<open>data\<close>). A \<^verbatim>\<open>throw\<close> is the result \<open>Inl\<close>. In \<open>prepareValue\<close>:
  \<^item> \<^verbatim>\<open>value.clone()\<close> is \<^verbatim>\<open>new Document(value.toJSON())\<close>, here \<open>replace [] (toJSON d)\<close>;
  \<^item> \<^verbatim>\<open>new Document(record).clone()\<close> is \<open>replace [] record\<close> followed by the same;
  \<^item> \<open>prepareItems\<close> is \<^verbatim>\<open>value.map(...)\<close>, \<open>prepareEntries\<close> the loop filling \<^verbatim>\<open>cloned\<close>;
  \<^item> a \<^verbatim>\<open>Query\<close> instance is an object without \<^verbatim>\<open>$id\<close>, whose entries are its three fields.
\<close>

function prepareValue :: "jsval \<Rightarrow> error + jsval"
  and prepareItems :: "jsval list \<Rightarrow> error + jsval list"
  and prepareEntries :: "DocumentData \<Rightarrow> DocumentData \<Rightarrow> error + DocumentData"
  and replace :: "DocumentData \<Rightarrow> DocumentData \<Rightarrow> error + DocumentData"
where
  "prepareValue (DocV d) =
     (case replace [] (toJSON d) of Inl e \<Rightarrow> Inl e | Inr d' \<Rightarrow> Inr (DocV d'))"
| "prepareValue (Arr items) =
     (case prepareItems items of Inl e \<Rightarrow> Inl e | Inr vs \<Rightarrow> Inr (Arr vs))"
| "prepareValue (Obj r) =
     (if has_prop ''$id'' r \<or> has_prop ''$collection'' r then
        (case replace [] r of
           Inl e \<Rightarrow> Inl e
         | Inr d \<Rightarrow> (case replace [] (toJSON d) of Inl e \<Rightarrow> Inl e | Inr d' \<Rightarrow> Inr (DocV d')))
      else
        (case prepareEntries [] r of Inl e \<Rightarrow> Inl e | Inr cloned \<Rightarrow> Inr (Obj cloned)))"
| "prepareValue (QueryV q) =
     (case prepareEntries []
        [(''method'', Str (getMethod q)), (''attribute'', getAttributeQ q),
         (''values'', Arr (getValues q))] of
        Inl e \<Rightarrow> Inl e | Inr cloned \<Rightarrow> Inr (Obj cloned))"
| "prepareValue Undefined = Inr Undefined"
| "prepareValue Null = Inr Null"
| "prepareValue (Bool b) = Inr (Bool b)"
| "prepareValue (Num n) = Inr (Num n)"
| "prepareValue (Str s) = Inr (Str s)"
| "prepareItems [] = Inr []"
| "prepareItems (item # items) =
     (case prepareValue item of
        Inl e \<Rightarrow> Inl e
      | Inr v \<Rightarrow> (case prepareItems items of Inl e \<Rightarrow> Inl e | Inr vs \<Rightarrow> Inr (v # vs)))"
| "prepareEntries cloned [] = Inr cloned"
| "prepareEntries cloned ((childKey, childValue) # rest) =
     (case prepareValue childValue of
        Inl e \<Rightarrow> Inl e
      | Inr v \<Rightarrow> prepareEntries (set_prop childKey v cloned) rest)"
| "replace data [] = Inr data"
| "replace data ((key, v) # rest) =
     (if key = ''$id'' \<and> v \<noteq> Undefined \<and> v \<noteq> Null then
        (if \<not> isString v then Inl (TypeError ''$id must be of type string'')
         else replace (set_prop key v data) rest)
      else if key = ''$permissions'' \<and> v \<noteq> Undefined \<and> v \<noteq> Null then
        (if \<not> isArray v then Inl (TypeError ''$permissions must be an array'')
         else replace (set_prop key (Arr (map (\<lambda>i. Str (js_String i)) (arrayItems v))) data) rest)
      else
        (case prepareValue v of
           Inl e \<Rightarrow> Inl e
         | Inr v' \<Rightarrow> replace (set_prop key v' data) rest))"
  by pat_completeness auto

lemma wts_map_Str: "wts (map (\<lambda>i. Str (f i)) items) \<le> wts items"
  by (induction items) auto

lemma prepare_wt:
  "prepareValue_prepareItems_prepareEntries_replace_dom (Inl (Inl v)) \<Longrightarrow>
     \<forall>v'. prepareValue v = Inr v' \<longrightarrow> wt v' \<le> wt v"
  "prepareValue_prepareItems_prepareEntries_replace_dom (Inl (Inr xs)) \<Longrightarrow>
     \<forall>xs'. prepareItems xs = Inr xs' \<longrightarrow> wts xs' \<le> wts xs"
  "prepareValue_prepareItems_prepareEntries_replace_dom (Inr (Inl (c, es))) \<Longrightarrow>
     \<forall>c'. prepareEntries c es = Inr c' \<longrightarrow> wte c' \<le> wte c + wte es"
  "prepareValue_prepareItems_prepareEntries_replace_dom (Inr (Inr (d, es))) \<Longrightarrow>
     \<forall>d'. replace d es = Inr d' \<longrightarrow> wte d' \<le> wte d + wte es"
     apply (induct rule: prepareValue_prepareItems_prepareEntries_replace.pinduct)
     apply (simp_all add: prepareValue.psimps prepareItems.psimps prepareEntries.psimps replace.psimps
       split: sum.splits)
  subgoal for d using wte_toJSON [of d] by (meson le_trans)
  subgoal premises prems for r
  proof -
    have key: "wte x2a \<le> wte r"
      if "has_prop ''$id'' r \<or> has_prop ''$collection'' r"
        and "replace [] r = Inr x2" and "replace [] (toJSON x2) = Inr x2a" for x2 x2a
    proof -
      have "wte x2 \<le> wte r" using prems(2) that(1,2) by simp
      moreover have "wte x2a \<le> wte (toJSON x2)" using prems(3) that by simp
      moreover have "wte (toJSON x2) \<le> wte x2" by (rule wte_toJSON)
      ultimately show ?thesis by linarith
    qed
    show ?thesis using key by blast
  qed
  subgoal for q using wts_getValues [of q] by auto
  subgoal for item items by (auto intro: add_mono)
  subgoal premises prems for cloned childKey childValue rest
  proof (intro allI impI)
    fix x2 c'
    assume a: "prepareValue childValue = Inr x2"
      and b: "prepareEntries (set_prop childKey x2 cloned) rest = Inr c'"
    have "wt x2 \<le> wt childValue" using prems(2) a by simp
    moreover have "wte c' \<le> wte (set_prop childKey x2 cloned) + wte rest"
      using prems(3) a b by simp
    moreover have "wte (set_prop childKey x2 cloned) \<le> wte cloned + 1 + wt x2"
      by (rule wte_set_prop)
    ultimately show "wte c' \<le> Suc (wte cloned + (wt childValue + wte rest))" by linarith
  qed
  subgoal premises prems for data key v rest
  proof -
    have step: "wte d' \<le> Suc (wte data + (wt w + wte rest))"
      if "wte d' \<le> wte (set_prop k w data) + wte rest" for k w d'
      using wte_set_prop [of k w data] that by linarith
    have perm: "wt (Arr (map (\<lambda>i. Str (js_String i)) (arrayItems v))) \<le> wt v" if "isArray v"
      using that wts_map_Str [of js_String "arrayItems v"] by (cases v) simp_all
    show ?thesis
      using prems(2-) perm by (auto dest!: step split: sum.splits)
  qed
  done

lemma replace_wt_dom:
  "prepareValue_prepareItems_prepareEntries_replace_dom (Inr (Inr ([], es))) \<Longrightarrow>
     replace [] es = Inr d' \<Longrightarrow> wte (toJSON d') < Suc (wte es)"
  using prepare_wt(4) [of "[]" es] wte_toJSON [of d'] by force

termination prepareValue
  apply (relation "measure (case_sum (case_sum wt wts) (case_sum (\<lambda>(c, es). wte es) (\<lambda>(d, es). wte es)))")
  apply (simp_all add: replace_wt_dom le_imp_less_Suc [OF wte_toJSON])
  subgoal for q using wts_getValues [of q] by simp
  done

text \<open>The constructor \<^verbatim>\<open>new Document(input)\<close>, \<^verbatim>\<open>clone()\<close> and the two mutators.\<close>

definition Document :: "DocumentData \<Rightarrow> error + DocumentData" where
  "Document input = replace [] input"

definition clone :: "DocumentData \<Rightarrow> error + DocumentData" where
  "clone d = Document (toJSON d)"

text \<open>\<^verbatim>\<open>getAttribute(key)\<close>, called without a default: an absent key gives \<^verbatim>\<open>undefined\<close>.\<close>

definition getAttribute :: "DocumentData \<Rightarrow> string \<Rightarrow> jsval" where
  "getAttribute d key = (if \<not> has_prop key d then Undefined else get_prop key d)"

definition setAttribute :: "DocumentData \<Rightarrow> string \<Rightarrow> jsval \<Rightarrow> error + DocumentData" where
  "setAttribute d key v =
     (case prepareValue v of Inl e \<Rightarrow> Inl e | Inr v' \<Rightarrow> Inr (set_prop key v' d))"

definition removeAttribute :: "DocumentData \<Rightarrow> string \<Rightarrow> DocumentData" where
  "removeAttribute d key = delete_prop key d"

section \<open>Query\<close>

definition LOGICAL_METHODS :: "string list" where
  "LOGICAL_METHODS = [''and'', ''or'']"

definition VALID_METHODS :: "string list" where
  "VALID_METHODS =
     [''equal'', ''notEqual'', ''lessThan'', ''lessThanEqual'', ''greaterThan'',
      ''greaterThanEqual'', ''contains'', ''notContains'', ''search'', ''notSearch'',
      ''isNull'', ''isNotNull'', ''between'', ''startsWith'', ''notStartsWith'',
      ''endsWith'', ''notEndsWith'', ''limit'', ''offset'', ''orderAsc'', ''orderDesc'',
      ''select'', ''and'', ''or'']"

text \<open>\<^verbatim>\<open>Query.isMethod(value)\<close>: \<^verbatim>\<open>VALID_METHODS.has(value)\<close>, false for a value that is no string.\<close>

fun isMethod :: "jsval \<Rightarrow> bool" where
  "isMethod (Str s) = (s \<in> set VALID_METHODS)"
| "isMethod v = False"

text \<open>The three reads of \<^verbatim>\<open>fromJSON\<close>: \<^verbatim>\<open>json.method\<close>, \<^verbatim>\<open>json.attribute ?? ''\<close>,
  \<^verbatim>\<open>json.values ?? []\<close>.\<close>

definition jsonMethod :: "jsval \<Rightarrow> jsval" where
  "jsonMethod json = member ''method'' json"

definition jsonAttribute :: "jsval \<Rightarrow> jsval" where
  "jsonAttribute json =
     (if nullish (member ''attribute'' json) then Str [] else member ''attribute'' json)"

definition jsonValues :: "jsval \<Rightarrow> jsval" where
  "jsonValues json =
     (if nullish (member ''values'' json) then Arr [] else member ''values'' json)"

subsection \<open>A second weight, for the constructor\<close>

fun qw :: "jsval \<Rightarrow> nat" and qws :: "jsval list \<Rightarrow> nat"
  and qwe :: "DocumentData \<Rightarrow> nat" and qwq :: "query \<Rightarrow> nat" and qwqs :: "query list \<Rightarrow> nat"
where
  "qw (Arr xs) = 1 + qws xs"
| "qw (Obj es) = 3 + qwe es"
| "qw (DocV es) = 3 + qwe es"
| "qw (QueryV q) = 1 + qwq q"
| "qw v = 0"
| "qws [] = 0"
| "qws (x # xs) = 1 + qw x + qws xs"
| "qwe [] = 0"
| "qwe ((k, v) # es) = 1 + qw v + qwe es"
| "qwq (Plain m a vs) = 1 + qws vs"
| "qwq (Logical m a qs) = 1 + qwqs qs"
| "qwqs [] = 0"
| "qwqs (q # qs) = 2 + qwq q + qwqs qs"

lemma qws_map_QueryV: "qws (map QueryV qs) = qwqs qs"
  by (induction qs) auto

lemma qws_getValues: "Suc (qws (getValues q)) = qwq q"
  by (cases q) (auto simp: qws_map_QueryV)

lemma qw_get_prop: "get_prop k d = Arr xs \<Longrightarrow> qws xs + 2 \<le> qwe d"
  by (induction d) (auto split: if_splits)

lemma qws_jsonValues:
  "isMethod (jsonMethod json) \<Longrightarrow> qws (arrayItems (jsonValues json)) + 2 \<le> qw json"
proof (cases json)
  case (Obj props)
  show ?thesis
  proof (cases "get_prop ''values'' props")
    case (Arr xs)
    then show ?thesis using Obj qw_get_prop [of "''values''" props xs] by (simp add: jsonValues_def)
  qed (simp_all add: Obj jsonValues_def)
next
  case (QueryV q)
  then show ?thesis using qws_getValues [of q] by (simp add: jsonValues_def)
qed (simp_all add: jsonValues_def jsonMethod_def)

text \<open>
  The constructor \<open>Query_new\<close> with its loop \<open>newValues\<close> over the operands of a logical
  method, \<^verbatim>\<open>clone()\<close>, and \<^verbatim>\<open>fromJSON\<close> with its loop \<open>fromJSON_entries\<close> over
  \<^verbatim>\<open>json.values\<close>. The constructor does not look at \<open>method\<close> beyond the test
  \<^verbatim>\<open>LOGICAL_METHODS.has(method)\<close>.
\<close>

function Query_new :: "string \<Rightarrow> jsval \<Rightarrow> jsval list \<Rightarrow> error + query"
  and newValues :: "jsval list \<Rightarrow> error + query list"
  and Query_clone :: "query \<Rightarrow> error + query"
  and fromJSON :: "jsval \<Rightarrow> error + query"
  and fromJSON_entries :: "jsval list \<Rightarrow> error + query list"
where
  "Query_new method attribute vals =
     (if method \<in> set LOGICAL_METHODS then
        (case newValues vals of Inl e \<Rightarrow> Inl e | Inr qs \<Rightarrow> Inr (Logical method attribute qs))
      else Inr (Plain method attribute vals))"
| "newValues [] = Inr []"
| "newValues (QueryV q # rest) =
     (case Query_clone q of
        Inl e \<Rightarrow> Inl e
      | Inr q' \<Rightarrow> (case newValues rest of Inl e \<Rightarrow> Inl e | Inr qs \<Rightarrow> Inr (q' # qs)))"
| "newValues (Arr xs # rest) =
     (case fromJSON (Arr xs) of
        Inl e \<Rightarrow> Inl e
      | Inr q' \<Rightarrow> (case newValues rest of Inl e \<Rightarrow> Inl e | Inr qs \<Rightarrow> Inr (q' # qs)))"
| "newValues (Obj ps # rest) =
     (case fromJSON (Obj ps) of
        Inl e \<Rightarrow> Inl e
      | Inr q' \<Rightarrow> (case newValues rest of Inl e \<Rightarrow> Inl e | Inr qs \<Rightarrow> Inr (q' # qs)))"
| "newValues (DocV d # rest) =
     (case fromJSON (DocV d) of
        Inl e \<Rightarrow> Inl e
      | Inr q' \<Rightarrow> (case newValues rest of Inl e \<Rightarrow> Inl e | Inr qs \<Rightarrow> Inr (q' # qs)))"
| "newValues (Undefined # rest) = Inl (TypeError ''Logical queries must contain Query instances'')"
| "newValues (Null # rest) = Inl (TypeError ''Logical queries must contain Query instances'')"
| "newValues (Bool b # rest) = Inl (TypeError ''Logical queries must contain Query instances'')"
| "newValues (Num n # rest) = Inl (TypeError ''Logical queries must contain Query instances'')"
| "newValues (Str s # rest) = Inl (TypeError ''Logical queries must contain Query instances'')"
| "Query_clone q = Query_new (getMethod q) (getAttributeQ q) (getValues q)"
| "fromJSON json =
     (if nullish json then Inl (TypeError ''Cannot read properties of null or undefined'')
      else if \<not> isMethod (jsonMethod json) then
        Inl (Error (''Invalid query method: '' @ js_String (jsonMethod json)))
      else if \<not> isArray (jsonValues json) then Inl (TypeError ''values.map is not a function'')
      else if js_String (jsonMethod json) \<in> set LOGICAL_METHODS then
        (case fromJSON_entries (arrayItems (jsonValues json)) of
           Inl e \<Rightarrow> Inl e
         | Inr qs \<Rightarrow> Query_new (js_String (jsonMethod json)) (jsonAttribute json) (map QueryV qs))
      else Query_new (js_String (jsonMethod json)) (jsonAttribute json) (arrayItems (jsonValues json)))"
| "fromJSON_entries [] = Inr []"
| "fromJSON_entries (entry # rest) =
     (case fromJSON entry of
        Inl e \<Rightarrow> Inl e
      | Inr q \<Rightarrow> (case fromJSON_entries rest of Inl e \<Rightarrow> Inl e | Inr qs \<Rightarrow> Inr (q # qs)))"
  by pat_completeness auto

lemma Query_wt:
  "Query_new_newValues_Query_clone_fromJSON_fromJSON_entries_dom (Inl (Inl (m, a, vs))) \<Longrightarrow>
     \<forall>q. Query_new m a vs = Inr q \<longrightarrow> qwq q \<le> Suc (qws vs)"
  "Query_new_newValues_Query_clone_fromJSON_fromJSON_entries_dom (Inl (Inr vs)) \<Longrightarrow>
     \<forall>qs. newValues vs = Inr qs \<longrightarrow> qwqs qs \<le> qws vs"
  "Query_new_newValues_Query_clone_fromJSON_fromJSON_entries_dom (Inr (Inl q0)) \<Longrightarrow>
     \<forall>q. Query_clone q0 = Inr q \<longrightarrow> qwq q \<le> qwq q0"
  "Query_new_newValues_Query_clone_fromJSON_fromJSON_entries_dom (Inr (Inr (Inl json))) \<Longrightarrow>
     \<forall>q. fromJSON json = Inr q \<longrightarrow> Suc (qwq q) \<le> qw json"
  "Query_new_newValues_Query_clone_fromJSON_fromJSON_entries_dom (Inr (Inr (Inr es))) \<Longrightarrow>
     \<forall>qs. fromJSON_entries es = Inr qs \<longrightarrow> qwqs qs \<le> qws es"
proof (induct rule: Query_new_newValues_Query_clone_fromJSON_fromJSON_entries.pinduct)
  case (1 m a vs)
  then show ?case by (auto simp: Query_new.psimps split: sum.splits)
next
  case 2
  then show ?case by (simp add: newValues.psimps)
next
  case (3 q rest)
  then show ?case by (auto simp: newValues.psimps split: sum.splits intro: add_mono)
next
  case (4 xs rest)
  then show ?case by (auto simp: newValues.psimps split: sum.splits)
next
  case (5 ps rest)
  then show ?case by (fastforce simp: newValues.psimps split: sum.splits)
next
  case (6 d rest)
  then show ?case by (fastforce simp: newValues.psimps split: sum.splits)
next
  case (12 q)
  then show ?case using qws_getValues [of q] by (auto simp: Query_clone.psimps)
next
  case (13 json)
  show ?case
  proof (intro allI impI)
    fix q assume r: "fromJSON json = Inr q"
    note ps = fromJSON.psimps [OF 13(1)]
    from r ps have nn: "\<not> nullish json" and im: "isMethod (jsonMethod json)"
      and ia: "isArray (jsonValues json)"
      by (auto split: if_splits)
    have bound: "qws (arrayItems (jsonValues json)) + 2 \<le> qw json"
      using im by (rule qws_jsonValues)
    show "Suc (qwq q) \<le> qw json"
    proof (cases "js_String (jsonMethod json) \<in> set LOGICAL_METHODS")
      case True
      with r ps nn im ia obtain qs where
        e: "fromJSON_entries (arrayItems (jsonValues json)) = Inr qs"
        and n: "Query_new (js_String (jsonMethod json)) (jsonAttribute json) (map QueryV qs) = Inr q"
        by (auto split: sum.splits)
      have "qwqs qs \<le> qws (arrayItems (jsonValues json))"
        using 13(2) nn im ia True e by simp
      moreover have "qwq q \<le> Suc (qws (map QueryV qs))"
        using 13(3) nn im ia True e n by simp
      ultimately show ?thesis using bound by (simp add: qws_map_QueryV)
    next
      case False
      with r ps nn im ia have
        n: "Query_new (js_String (jsonMethod json)) (jsonAttribute json) (arrayItems (jsonValues json)) = Inr q"
        by (auto split: sum.splits)
      have "qwq q \<le> Suc (qws (arrayItems (jsonValues json)))"
        using 13(4) nn im ia False n by simp
      then show ?thesis using bound by simp
    qed
  qed
next
  case 14
  then show ?case by (simp add: fromJSON_entries.psimps)
next
  case (15 entry rest)
  then show ?case by (fastforce simp: fromJSON_entries.psimps split: sum.splits)
qed (simp_all add: newValues.psimps)

termination Query_new
proof (relation "measure (case_sum
    (case_sum (\<lambda>(m, a, vs). 3 * qws vs + 2) (\<lambda>vs. 3 * qws vs + 1))
    (case_sum (\<lambda>q. 3 * qwq q) (case_sum (\<lambda>json. 3 * qw json) (\<lambda>es. 3 * qws es))))", goal_cases)
  case (12 json)
  then show ?case using qws_jsonValues [of json] by simp
next
  case (13 json x2)
  then show ?case using qws_jsonValues [of json] Query_wt(5) [of "arrayItems (jsonValues json)"]
    by (simp add: qws_map_QueryV)
next
  case (14 json)
  then show ?case using qws_jsonValues [of json] by simp
qed (simp_all add: qws_getValues [symmetric])


subsection \<open>Static factories\<close>

definition Query_equal :: "string \<Rightarrow> jsval list \<Rightarrow> error + query" where
  "Query_equal attribute vals = Query_new ''equal'' (Str attribute) vals"

definition Query_notEqual :: "string \<Rightarrow> jsval \<Rightarrow> error + query" where
  "Query_notEqual attribute v =
     Query_new ''notEqual'' (Str attribute) (if isArray v then arrayItems v else [v])"

definition Query_lessThan :: "string \<Rightarrow> jsval \<Rightarrow> error + query" where
  "Query_lessThan attribute v = Query_new ''lessThan'' (Str attribute) [v]"

definition Query_lessThanEqual :: "string \<Rightarrow> jsval \<Rightarrow> error + query" where
  "Query_lessThanEqual attribute v = Query_new ''lessThanEqual'' (Str attribute) [v]"

definition Query_greaterThan :: "string \<Rightarrow> jsval \<Rightarrow> error + query" where
  "Query_greaterThan attribute v = Query_new ''greaterThan'' (Str attribute) [v]"

definition Query_greaterThanEqual :: "string \<Rightarrow> jsval \<Rightarrow> error + query" where
  "Query_greaterThanEqual attribute v = Query_new ''greaterThanEqual'' (Str attribute) [v]"

definition Query_contains :: "string \<Rightarrow> jsval \<Rightarrow> error + query" where
  "Query_contains attribute v =
     Query_new ''contains'' (Str attribute) (if isArray v then arrayItems v else [v])"

definition Query_notContains :: "string \<Rightarrow> jsval \<Rightarrow> error + query" where
  "Query_notContains attribute v =
     Query_new ''notContains'' (Str attribute) (if isArray v then arrayItems v else [v])"

definition Query_isNull :: "string \<Rightarrow> error + query" where
  "Query_isNull attribute = Query_new ''isNull'' (Str attribute) []"

definition Query_isNotNull :: "string \<Rightarrow> error + query" where
  "Query_isNotNull attribute = Query_new ''isNotNull'' (Str attribute) []"

definition Query_between :: "string \<Rightarrow> jsval \<Rightarrow> jsval \<Rightarrow> error + query" where
  "Query_between attribute start end' = Query_new ''between'' (Str attribute) [start, end']"

definition Query_limit :: "int \<Rightarrow> error + query" where
  "Query_limit n = Query_new ''limit'' (Str []) [Num n]"

definition Query_offset :: "int \<Rightarrow> error + query" where
  "Query_offset n = Query_new ''offset'' (Str []) [Num n]"

definition Query_orderAsc :: "string \<Rightarrow> error + query" where
  "Query_orderAsc attribute = Query_new ''orderAsc'' (Str attribute) []"

definition Query_orderDesc :: "string \<Rightarrow> error + query" where
  "Query_orderDesc attribute = Query_new ''orderDesc'' (Str attribute) []"

definition Query_select :: "string list \<Rightarrow> error + query" where
  "Query_select fields = Query_new ''select'' (Str []) (map Str fields)"

definition Query_and :: "query list \<Rightarrow> error + query" where
  "Query_and queries = Query_new ''and'' (Str []) (map QueryV queries)"

definition Query_or :: "query list \<Rightarrow> error + query" where
  "Query_or queries = Query_new ''or'' (Str []) (map QueryV queries)"

subsection \<open>Parsing what \<^verbatim>\<open>toString\<close> wrote\<close>

text \<open>
  \<^verbatim>\<open>JSON.parse(JSON.stringify(v))\<close> as a function on values, \<open>None\<close> where
  \<^verbatim>\<open>JSON.stringify\<close> returns \<^verbatim>\<open>undefined\<close>: it follows \<open>stringify\<close> case by case and
  builds, instead of the text, the value that the text denotes.
\<close>

function JSON_roundtrip :: "jsval \<Rightarrow> jsval option"
  and JSON_roundtrip_items :: "jsval list \<Rightarrow> jsval list"
  and JSON_roundtrip_props :: "DocumentData \<Rightarrow> DocumentData"
where
  "JSON_roundtrip Undefined = None"
| "JSON_roundtrip Null = Some Null"
| "JSON_roundtrip (Bool b) = Some (Bool b)"
| "JSON_roundtrip (Num n) = Some (Num n)"
| "JSON_roundtrip (Str s) = Some (Str s)"
| "JSON_roundtrip (Arr items) = Some (Arr (JSON_roundtrip_items items))"
| "JSON_roundtrip (Obj props) = Some (Obj (JSON_roundtrip_props props))"
| "JSON_roundtrip (DocV d) = JSON_roundtrip (Obj (toJSON d))"
| "JSON_roundtrip (QueryV q) = JSON_roundtrip (Obj (Query_toJSON q))"
| "JSON_roundtrip_items [] = []"
| "JSON_roundtrip_items (v # vs) =
     (case JSON_roundtrip v of None \<Rightarrow> Null | Some j \<Rightarrow> j) # JSON_roundtrip_items vs"
| "JSON_roundtrip_props [] = []"
| "JSON_roundtrip_props ((k, v) # ps) =
     (case JSON_roundtrip v of
        None \<Rightarrow> JSON_roundtrip_props ps
      | Some j \<Rightarrow> (k, j) # JSON_roundtrip_props ps)"
  by pat_completeness auto
termination
proof (relation "measure (case_sum (\<lambda>v. 2 * wt v + (case v of DocV d \<Rightarrow> 1 | _ \<Rightarrow> 0))
    (case_sum (\<lambda>vs. 2 * wts vs) (\<lambda>ps. 2 * wte ps)))", goal_cases)
  case (4 d)
  then show ?case using wte_toJSON [of d] by simp
next
  case (5 q)
  then show ?case using wte_Query_toJSON [of q] by simp
qed (simp_all split: jsval.split)

text \<open>\<^verbatim>\<open>Query.parse(q.toString())\<close>: \<^verbatim>\<open>Query.fromJSON(JSON.parse(JSON.stringify(q.toJSON())))\<close>.\<close>

definition parse_toString :: "query \<Rightarrow> error + query" where
  "parse_toString q =
     (case JSON_roundtrip (Obj (Query_toJSON q)) of
        None \<Rightarrow> Inl (Error ''Unexpected token'')
      | Some json \<Rightarrow> fromJSON json)"

section \<open>MemoryAdapter: comparison\<close>

text \<open>
  \<^verbatim>\<open>a === b\<close>. Primitives are compared by value. Two objects are identical only when they
  are the same object; every \<^verbatim>\<open>===\<close> of the adapter has on its two sides values held by
  two different owners (a cloned document and a query, or two cloned documents), so on
  objects the answer is \<open>False\<close>.
\<close>

fun strictEq :: "jsval \<Rightarrow> jsval \<Rightarrow> bool" where
  "strictEq Undefined Undefined = True"
| "strictEq Null Null = True"
| "strictEq (Bool a) (Bool b) = (a = b)"
| "strictEq (Num a) (Num b) = (a = b)"
| "strictEq (Str a) (Str b) = (a = b)"
| "strictEq a b = False"

text \<open>\<^verbatim>\<open>s < t\<close> on strings: lexicographic by code unit.\<close>

fun str_less :: "string \<Rightarrow> string \<Rightarrow> bool" where
  "str_less [] [] = False"
| "str_less [] (y # ys) = True"
| "str_less (x # xs) [] = False"
| "str_less (x # xs) (y # ys) =
     ((of_char x :: nat) < of_char y \<or> (x = y \<and> str_less xs ys))"

text \<open>
  \<^verbatim>\<open>StringToNumber\<close> on the decimal integer literals: surrounding white space is dropped,
  the empty string is 0, an optional sign is followed by digits; \<open>None\<close> is \<^verbatim>\<open>NaN\<close>.
  The other literal forms (fractions, exponents, hexadecimal, \<^verbatim>\<open>Infinity\<close>) denote numbers
  outside the integer fragment and are not recognised here.
\<close>

definition isSpace :: "char \<Rightarrow> bool" where
  "isSpace c = ((of_char c :: nat) \<in> {9, 10, 11, 12, 13, 32, 160})"

definition isDigit :: "char \<Rightarrow> bool" where
  "isDigit c = (48 \<le> (of_char c :: nat) \<and> (of_char c :: nat) \<le> 57)"

definition trim :: "string \<Rightarrow> string" where
  "trim s = rev (dropWhile isSpace (rev (dropWhile isSpace s)))"

definition digitsValue :: "string \<Rightarrow> int" where
  "digitsValue ds = foldl (\<lambda>acc c. 10 * acc + (int (of_char c) - 48)) 0 ds"

definition StringToNumber :: "string \<Rightarrow> int option" where
  "StringToNumber s =
     (let t = trim s in
      if t = [] then Some 0
      else
        (let sgn = (if hd t = CHR ''-'' then - 1 else 1);
             ds = (if hd t = CHR ''-'' \<or> hd t = CHR ''+'' then tl t else t)
         in if ds \<noteq> [] \<and> list_all isDigit ds then Some (sgn * digitsValue ds) else None))"

text \<open>\<^verbatim>\<open>ToPrimitive\<close> and \<^verbatim>\<open>ToNumber\<close>, then the relational operator \<^verbatim>\<open>a < b\<close>
  (\<^verbatim>\<open>a > b\<close> is \<open>js_less b a\<close>): two strings compare as strings, anything else as numbers, and
  a comparison with \<^verbatim>\<open>NaN\<close> is false.\<close>

definition ToPrimitive :: "jsval \<Rightarrow> jsval" where
  "ToPrimitive v = (if isObject v then Str (js_String v) else v)"

fun ToNumber :: "jsval \<Rightarrow> int option" where
  "ToNumber Undefined = None"
| "ToNumber Null = Some 0"
| "ToNumber (Bool b) = Some (if b then 1 else 0)"
| "ToNumber (Num n) = Some n"
| "ToNumber (Str s) = StringToNumber s"
| "ToNumber v = None"

definition js_less :: "jsval \<Rightarrow> jsval \<Rightarrow> bool" where
  "js_less a b =
     (let pa = ToPrimitive a; pb = ToPrimitive b in
      if isString pa \<and> isString pb then str_less (js_String pa) (js_String pb)
      else (case (ToNumber pa, ToNumber pb) of
              (Some x, Some y) \<Rightarrow> x < y
            | _ \<Rightarrow> False))"

fun numberOf :: "jsval \<Rightarrow> int" where
  "numberOf (Num n) = n"
| "numberOf v = 0"

text \<open>
  \<^verbatim>\<open>compareValues(a, b)\<close>. On two numbers the result is \<^verbatim>\<open>a - b\<close>, an integer here
  since the numbers of the model are the integers; for \<^verbatim>\<open>NaN\<close>, which is outside the
  model, the source returns \<^verbatim>\<open>NaN\<close>, a result that is neither 0 nor below nor above 0.
\<close>

definition compareValues :: "jsval \<Rightarrow> jsval \<Rightarrow> int" where
  "compareValues a b =
     (if strictEq a b then 0
      else if a = Undefined \<or> a = Null then - 1
      else if b = Undefined \<or> b = Null then 1
      else if isNumber a \<and> isNumber b then numberOf a - numberOf b
      else
        (let aString = js_String a; bString = js_String b in
         if aString = bString then 0 else if str_less bString aString then 1 else - 1))"

datatype direction = Asc | Desc

text \<open>\<^verbatim>\<open>compareDocuments(a, b, order)\<close>; the attribute of a sort key is used as a property
  key, that is, through \<^verbatim>\<open>String\<close>.\<close>

fun compareDocuments ::
  "DocumentData \<Rightarrow> DocumentData \<Rightarrow> (jsval \<times> direction) list \<Rightarrow> int"
where
  "compareDocuments a b [] = 0"
| "compareDocuments a b ((attribute, direction) # rest) =
     (let aValue = getAttribute a (js_String attribute);
          bValue = getAttribute b (js_String attribute)
      in
        if strictEq aValue bValue then compareDocuments a b rest
        else if aValue = Undefined \<or> aValue = Null then (if direction = Asc then - 1 else 1)
        else if bValue = Undefined \<or> bValue = Null then (if direction = Asc then 1 else - 1)
        else if js_less bValue aValue then (if direction = Asc then 1 else - 1)
        else if js_less aValue bValue then (if direction = Asc then - 1 else 1)
        else compareDocuments a b rest)"

section \<open>MemoryAdapter: evaluation of one query\<close>

text \<open>\<^verbatim>\<open>containsValue(source, candidates)\<close>.\<close>

definition containsValue :: "jsval \<Rightarrow> jsval list \<Rightarrow> bool" where
  "containsValue source candidates =
     (if isArray source then
        list_all (\<lambda>candidate. list_ex (\<lambda>item. compareValues item candidate = 0) (arrayItems source))
          candidates
      else list_ex (\<lambda>candidate. compareValues source candidate = 0) candidates)"

text \<open>\<^verbatim>\<open>toLowerCase\<close> (the capital letters of Latin-1 are those of ASCII and the codes 192 to
  222 without the multiplication sign), \<^verbatim>\<open>includes\<close>, \<^verbatim>\<open>startsWith\<close>, \<^verbatim>\<open>endsWith\<close>.\<close>

definition isUpper :: "char \<Rightarrow> bool" where
  "isUpper c =
     ((65 \<le> (of_char c :: nat) \<and> (of_char c :: nat) \<le> 90) \<or>
      (192 \<le> (of_char c :: nat) \<and> (of_char c :: nat) \<le> 222 \<and> (of_char c :: nat) \<noteq> 215))"

definition toLowerCase :: "string \<Rightarrow> string" where
  "toLowerCase s = map (\<lambda>c. if isUpper c then char_of ((of_char c :: nat) + 32) else c) s"

fun str_startsWith :: "string \<Rightarrow> string \<Rightarrow> bool" where
  "str_startsWith s [] = True"
| "str_startsWith [] (p # ps) = False"
| "str_startsWith (c # cs) (p # ps) = (c = p \<and> str_startsWith cs ps)"

fun str_includes :: "string \<Rightarrow> string \<Rightarrow> bool" where
  "str_includes [] needle = (needle = [])"
| "str_includes (c # cs) needle = (str_startsWith (c # cs) needle \<or> str_includes cs needle)"

definition str_endsWith :: "string \<Rightarrow> string \<Rightarrow> bool" where
  "str_endsWith s suffix = str_startsWith (rev s) (rev suffix)"

text \<open>
  \<^verbatim>\<open>search(source, needle)\<close>: the needle is used as a string without a test, so that
  \<^verbatim>\<open>needle.toLowerCase()\<close> throws when a string source meets a needle that is none.
  \<^verbatim>\<open>startsWith\<close> and \<^verbatim>\<open>endsWith\<close> convert their argument with \<^verbatim>\<open>String\<close>.
\<close>

definition search :: "jsval \<Rightarrow> jsval \<Rightarrow> error + bool" where
  "search source needle =
     (if \<not> isString source then Inr False
      else if \<not> isString needle then Inl (TypeError ''needle.toLowerCase is not a function'')
      else Inr (str_includes (toLowerCase (js_String source)) (toLowerCase (js_String needle))))"

definition startsWith :: "jsval \<Rightarrow> jsval \<Rightarrow> bool" where
  "startsWith source prefix =
     (isString source \<and> str_startsWith (js_String source) (js_String prefix))"

definition endsWith :: "jsval \<Rightarrow> jsval \<Rightarrow> bool" where
  "endsWith source suffix =
     (isString source \<and> str_endsWith (js_String source) (js_String suffix))"

text \<open>\<^verbatim>\<open>const [first, second] = query.getValues()\<close>.\<close>

fun element :: "jsval list \<Rightarrow> nat \<Rightarrow> jsval" where
  "element [] i = Undefined"
| "element (v # vs) 0 = v"
| "element (v # vs) (Suc i) = element vs i"

definition negate :: "error + bool \<Rightarrow> error + bool" where
  "negate r = (case r of Inl e \<Rightarrow> Inl e | Inr b \<Rightarrow> Inr (\<not> b))"

text \<open>
  \<^verbatim>\<open>evaluate(document, query)\<close>. \<open>evaluateEvery\<close> and \<open>evaluateSome\<close> are
  \<^verbatim>\<open>values.every(...)\<close> and \<^verbatim>\<open>values.some(...)\<close> over the nested queries, which stop at
  the first \<^verbatim>\<open>false\<close> (the first \<^verbatim>\<open>true\<close>) and at the first exception. The
  constructor builds \<open>Logical\<close> exactly for the methods \<^verbatim>\<open>and\<close> and \<^verbatim>\<open>or\<close>
  (\<open>Query_new_Logical_iff\<close> below), so the first test of the source is the case distinction
  on the two constructors.
\<close>

fun evaluate :: "DocumentData \<Rightarrow> query \<Rightarrow> error + bool"
  and evaluateEvery :: "DocumentData \<Rightarrow> query list \<Rightarrow> error + bool"
  and evaluateSome :: "DocumentData \<Rightarrow> query list \<Rightarrow> error + bool"
where
  "evaluate document (Logical method attribute nested) =
     (if method = ''and'' then evaluateEvery document nested else evaluateSome document nested)"
| "evaluate document (Plain method attribute vals) =
     (let v = getAttribute document (js_String attribute);
          first = element vals 0;
          second = element vals 1
      in
        if method = ''equal'' then Inr (list_ex (\<lambda>candidate. compareValues v candidate = 0) vals)
        else if method = ''notEqual'' then
          Inr (list_all (\<lambda>candidate. compareValues v candidate \<noteq> 0) vals)
        else if method = ''lessThan'' then Inr (compareValues v first < 0)
        else if method = ''lessThanEqual'' then Inr (compareValues v first \<le> 0)
        else if method = ''greaterThan'' then Inr (compareValues v first > 0)
        else if method = ''greaterThanEqual'' then Inr (compareValues v first \<ge> 0)
        else if method = ''contains'' then Inr (containsValue v vals)
        else if method = ''notContains'' then Inr (\<not> containsValue v vals)
        else if method = ''search'' then search v first
        else if method = ''notSearch'' then negate (search v first)
        else if method = ''isNull'' then Inr (v = Null \<or> v = Undefined)
        else if method = ''isNotNull'' then Inr (v \<noteq> Null \<and> v \<noteq> Undefined)
        else if method = ''between'' then
          Inr (compareValues v first \<ge> 0 \<and> compareValues v second \<le> 0)
        else if method = ''startsWith'' then Inr (startsWith v first)
        else if method = ''notStartsWith'' then Inr (\<not> startsWith v first)
        else if method = ''endsWith'' then Inr (endsWith v first)
        else if method = ''notEndsWith'' then Inr (\<not> endsWith v first)
        else Inr True)"
| "evaluateEvery document [] = Inr True"
| "evaluateEvery document (q # qs) =
     (case evaluate document q of
        Inl e \<Rightarrow> Inl e
      | Inr ok \<Rightarrow> (if ok then evaluateEvery document qs else Inr False))"
| "evaluateSome document [] = Inr False"
| "evaluateSome document (q # qs) =
     (case evaluate document q of
        Inl e \<Rightarrow> Inl e
      | Inr ok \<Rightarrow> (if ok then Inr True else evaluateSome document qs))"

section \<open>MemoryAdapter: applying a query list\<close>

text \<open>The local variables of \<^verbatim>\<open>applyQueries\<close> and one turn of its first loop.\<close>

record partition =
  filters :: "query list"
  order :: "(jsval \<times> direction) list"
  limit :: "int option"
  offset :: int
  select :: "string list option"

definition initialPartition :: partition where
  "initialPartition = \<lparr> filters = [], order = [], limit = None, offset = 0, select = None \<rparr>"

definition partitionStep :: "partition \<Rightarrow> query \<Rightarrow> partition" where
  "partitionStep p query =
     (if getMethod query = ''limit'' then
        (if isNumber (element (getValues query) 0)
         then p\<lparr> limit := Some (numberOf (element (getValues query) 0)) \<rparr> else p)
      else if getMethod query = ''offset'' then
        (if isNumber (element (getValues query) 0)
         then p\<lparr> offset := numberOf (element (getValues query) 0) \<rparr> else p)
      else if getMethod query = ''orderAsc'' \<or> getMethod query = ''orderDesc'' then
        p\<lparr> order := order p @
             [(getAttributeQ query, if getMethod query = ''orderAsc'' then Asc else Desc)] \<rparr>
      else if getMethod query = ''select'' then
        (if list_all isString (getValues query)
         then p\<lparr> select := Some (map js_String (getValues query)) \<rparr> else p)
      else p\<lparr> filters := filters p @ [query] \<rparr>)"

definition partitionQueries :: "query list \<Rightarrow> partition" where
  "partitionQueries queries = foldl partitionStep initialPartition queries"

text \<open>\<^verbatim>\<open>documents.filter((document) => filters.every((filter) => this.evaluate(document, filter)))\<close>.\<close>

fun filterDocuments :: "DocumentData list \<Rightarrow> query list \<Rightarrow> error + DocumentData list" where
  "filterDocuments [] fs = Inr []"
| "filterDocuments (document # documents) fs =
     (case evaluateEvery document fs of
        Inl e \<Rightarrow> Inl e
      | Inr keep \<Rightarrow>
          (case filterDocuments documents fs of
             Inl e \<Rightarrow> Inl e
           | Inr rest \<Rightarrow> Inr (if keep then document # rest else rest)))"

text \<open>
  \<^verbatim>\<open>[...result].sort(cmp)\<close>. \<^verbatim>\<open>Array.prototype.sort\<close> is stable; it is modelled by the
  stable insertion sort, with which every implementation agrees when \<open>cmp\<close> is a consistent
  comparator.
\<close>

fun insertSorted :: "('a \<Rightarrow> 'a \<Rightarrow> int) \<Rightarrow> 'a \<Rightarrow> 'a list \<Rightarrow> 'a list" where
  "insertSorted cmp x [] = [x]"
| "insertSorted cmp x (y # ys) = (if cmp x y \<le> 0 then x # y # ys else y # insertSorted cmp x ys)"

definition sortWith :: "('a \<Rightarrow> 'a \<Rightarrow> int) \<Rightarrow> 'a list \<Rightarrow> 'a list" where
  "sortWith cmp xs = foldr (insertSorted cmp) xs []"

text \<open>\<^verbatim>\<open>result.slice(start)\<close> and \<^verbatim>\<open>result.slice(0, end)\<close>: a negative index counts from
  the end of the array.\<close>

definition sliceFrom :: "int \<Rightarrow> 'a list \<Rightarrow> 'a list" where
  "sliceFrom start xs =
     (if start < 0 then drop (nat (max (int (length xs) + start) 0)) xs else drop (nat start) xs)"

definition sliceTo :: "int \<Rightarrow> 'a list \<Rightarrow> 'a list" where
  "sliceTo end' xs =
     (if end' < 0 then take (nat (max (int (length xs) + end') 0)) xs else take (nat end') xs)"

text \<open>\<^verbatim>\<open>applySelect(document, select)\<close>.\<close>

definition applySelect :: "DocumentData \<Rightarrow> string list \<Rightarrow> error + DocumentData" where
  "applySelect document selected =
     Document
       (set_prop ''$collection'' (getCollection document)
         (set_prop ''$id'' (getId document)
           (foldl (\<lambda>obj field. set_prop field (getAttribute document field) obj) [] selected)))"

fun selectAll :: "DocumentData list \<Rightarrow> string list \<Rightarrow> error + DocumentData list" where
  "selectAll [] selected = Inr []"
| "selectAll (document # documents) selected =
     (case applySelect document selected of
        Inl e \<Rightarrow> Inl e
      | Inr d \<Rightarrow> (case selectAll documents selected of Inl e \<Rightarrow> Inl e | Inr ds \<Rightarrow> Inr (d # ds)))"

text \<open>The stages of \<^verbatim>\<open>applyQueries\<close> after the filter, and the whole.\<close>

definition orderStage :: "partition \<Rightarrow> DocumentData list \<Rightarrow> DocumentData list" where
  "orderStage p result =
     (if length (order p) > 0 then sortWith (\<lambda>a b. compareDocuments a b (order p)) result
      else result)"

definition offsetStage :: "partition \<Rightarrow> DocumentData list \<Rightarrow> DocumentData list" where
  "offsetStage p result = (if offset p \<noteq> 0 then sliceFrom (offset p) result else result)"

definition limitStage :: "partition \<Rightarrow> DocumentData list \<Rightarrow> DocumentData list" where
  "limitStage p result = (case limit p of Some n \<Rightarrow> sliceTo n result | None \<Rightarrow> result)"

definition selectStage :: "partition \<Rightarrow> DocumentData list \<Rightarrow> error + DocumentData list" where
  "selectStage p result =
     (case select p of
        Some selected \<Rightarrow> (if length selected > 0 then selectAll result selected else Inr result)
      | None \<Rightarrow> Inr result)"

definition applyQueries :: "DocumentData list \<Rightarrow> query list \<Rightarrow> error + DocumentData list" where
  "applyQueries documents queries =
     (let p = partitionQueries queries in
      case filterDocuments documents (filters p) of
        Inl e \<Rightarrow> Inl e
      | Inr result \<Rightarrow> selectStage p (limitStage p (offsetStage p (orderStage p result))))"

section \<open>MemoryAdapter: the store\<close>

text \<open>
  A JavaScript \<^verbatim>\<open>Map\<close> is the list of its entries in insertion order: \<^verbatim>\<open>set\<close> on a key
  that is there keeps the entry's place, \<^verbatim>\<open>delete\<close> reports whether the key was there.
\<close>

fun map_set :: "'k \<Rightarrow> 'v \<Rightarrow> ('k \<times> 'v) list \<Rightarrow> ('k \<times> 'v) list" where
  "map_set k v [] = [(k, v)]"
| "map_set k v ((k', v') # m) = (if k = k' then (k, v) # m else (k', v') # map_set k v m)"

fun map_get :: "'k \<Rightarrow> ('k \<times> 'v) list \<Rightarrow> 'v option" where
  "map_get k [] = None"
| "map_get k ((k', v') # m) = (if k = k' then Some v' else map_get k m)"

fun map_delete :: "'k \<Rightarrow> ('k \<times> 'v) list \<Rightarrow> ('k \<times> 'v) list" where
  "map_delete k [] = []"
| "map_delete k ((k', v') # m) = (if k = k' then m else (k', v') # map_delete k m)"

record CollectionSchema =
  name :: string
  attributes :: "jsval list"
  indexes :: "jsval list option"

record StoredCollection =
  schema :: CollectionSchema
  documents :: "(jsval \<times> DocumentData) list"

type_synonym MemoryAdapter = "(string \<times> StoredCollection) list"

text \<open>
  Every method takes the adapter's \<^verbatim>\<open>collections\<close> and returns them with its result; an
  exception is the result \<open>Inl\<close>, next to the collections as they are when it is thrown.
\<close>

definition createCollection :: "MemoryAdapter \<Rightarrow> CollectionSchema \<Rightarrow> MemoryAdapter" where
  "createCollection collections s =
     map_set (name s)
       \<lparr> schema = \<lparr> name = name s, attributes = attributes s,
                     indexes = Some (case indexes s of Some ix \<Rightarrow> ix | None \<Rightarrow> []) \<rparr>,
         documents = [] \<rparr>
       collections"

definition deleteCollection :: "MemoryAdapter \<Rightarrow> string \<Rightarrow> MemoryAdapter" where
  "deleteCollection collections n = map_delete n collections"

text \<open>The error of \<^verbatim>\<open>requireCollection\<close>, with its message
  \<^verbatim>\<open>Collection '${name}' does not exist\<close>.\<close>

definition collectionNotFound :: "string \<Rightarrow> error" where
  "collectionNotFound n =
     Error (''Collection '' @ [char_of (39::nat)] @ n @ [char_of (39::nat)] @ '' does not exist'')"

definition requireCollection :: "MemoryAdapter \<Rightarrow> string \<Rightarrow> error + StoredCollection" where
  "requireCollection collections n =
     (case map_get n collections of
        None \<Rightarrow> Inl (collectionNotFound n)
      | Some collection \<Rightarrow> Inr collection)"

definition createDocument ::
  "MemoryAdapter \<Rightarrow> string \<Rightarrow> DocumentData \<Rightarrow> MemoryAdapter \<times> (error + DocumentData)"
where
  "createDocument collections collection document =
     (case requireCollection collections collection of
        Inl e \<Rightarrow> (collections, Inl e)
      | Inr stored \<Rightarrow>
          (case clone document of
             Inl e \<Rightarrow> (collections, Inl e)
           | Inr copy \<Rightarrow>
               (map_set collection
                  (stored\<lparr> documents := map_set (getId document) copy (documents stored) \<rparr>)
                  collections,
                clone document)))"

definition updateDocument ::
  "MemoryAdapter \<Rightarrow> string \<Rightarrow> DocumentData \<Rightarrow> MemoryAdapter \<times> (error + DocumentData)"
where
  "updateDocument collections collection document =
     (case requireCollection collections collection of
        Inl e \<Rightarrow> (collections, Inl e)
      | Inr stored \<Rightarrow>
          (case clone document of
             Inl e \<Rightarrow> (collections, Inl e)
           | Inr copy \<Rightarrow>
               (map_set collection
                  (stored\<lparr> documents := map_set (getId document) copy (documents stored) \<rparr>)
                  collections,
                clone document)))"

definition deleteDocument ::
  "MemoryAdapter \<Rightarrow> string \<Rightarrow> string \<Rightarrow> MemoryAdapter \<times> (error + bool)"
where
  "deleteDocument collections collection id' =
     (case requireCollection collections collection of
        Inl e \<Rightarrow> (collections, Inl e)
      | Inr stored \<Rightarrow>
          (map_set collection
             (stored\<lparr> documents := map_delete (Str id') (documents stored) \<rparr>) collections,
           Inr (map_get (Str id') (documents stored) \<noteq> None)))"

text \<open>\<^verbatim>\<open>getDocument\<close> and \<^verbatim>\<open>listDocuments\<close> read \<^verbatim>\<open>this.collections.get(collection)\<close>
  themselves; \<open>None\<close> is the result \<^verbatim>\<open>null\<close>.\<close>

definition getDocument ::
  "MemoryAdapter \<Rightarrow> string \<Rightarrow> string \<Rightarrow> MemoryAdapter \<times> (error + DocumentData option)"
where
  "getDocument collections collection id' =
     (case map_get collection collections of
        None \<Rightarrow> (collections, Inr None)
      | Some stored \<Rightarrow>
          (case map_get (Str id') (documents stored) of
             None \<Rightarrow> (collections, Inr None)
           | Some document \<Rightarrow>
               (collections, case clone document of Inl e \<Rightarrow> Inl e | Inr copy \<Rightarrow> Inr (Some copy))))"

fun cloneAll :: "DocumentData list \<Rightarrow> error + DocumentData list" where
  "cloneAll [] = Inr []"
| "cloneAll (doc # docs) =
     (case clone doc of
        Inl e \<Rightarrow> Inl e
      | Inr copy \<Rightarrow> (case cloneAll docs of Inl e \<Rightarrow> Inl e | Inr copies \<Rightarrow> Inr (copy # copies)))"

definition listDocuments ::
  "MemoryAdapter \<Rightarrow> string \<Rightarrow> query list \<Rightarrow> MemoryAdapter \<times> (error + DocumentData list)"
where
  "listDocuments collections collection queries =
     (case map_get collection collections of
        None \<Rightarrow> (collections, Inr [])
      | Some stored \<Rightarrow>
          (collections,
           case cloneAll (map snd (documents stored)) of
             Inl e \<Rightarrow> Inl e
           | Inr docs \<Rightarrow> applyQueries docs queries))"

section \<open>Properties of the constructor of Query\<close>

lemma Query_new_Logical_iff:
  "Query_new m a vs = Inr q \<Longrightarrow> (\<exists>qs. q = Logical m a qs) = (m \<in> set LOGICAL_METHODS)"
  by (auto split: if_splits sum.splits)

lemma Query_new_plain: "m \<notin> set LOGICAL_METHODS \<Longrightarrow> Query_new m a vs = Inr (Plain m a vs)"
  by simp

lemma fromJSON_rejects_unknown_method:
  "\<not> isMethod (jsonMethod json) \<Longrightarrow> \<exists>e. fromJSON json = Inl e"
  by simp

text \<open>
  Claim C2. Building a Query with a method that is not one of the valid operator names
  should fail, through \<^verbatim>\<open>fromJSON\<close> and through the constructor alike. \<^verbatim>\<open>fromJSON\<close> does
  reject such a method (\<open>fromJSON_rejects_unknown_method\<close>); the constructor never looks
  at \<^verbatim>\<open>VALID_METHODS\<close>: \<^verbatim>\<open>new Query('bogus', 'a', [])\<close> returns a Query, while the same
  method is refused when it arrives as JSON.
\<close>

theorem C2_constructor_accepts_unknown_method:
  "\<not> isMethod (Str ''bogus'') \<and>
   Query_new ''bogus'' (Str ''a'') [] = Inr (Plain ''bogus'' (Str ''a'') []) \<and>
   fromJSON (Obj [(''method'', Str ''bogus''), (''attribute'', Str ''a''), (''values'', Arr [])])
     = Inl (Error ''Invalid query method: bogus'')"
  by code_simp

section \<open>Properties of \<^verbatim>\<open>clone\<close>\<close>

text \<open>
  Claim C7. \<^verbatim>\<open>doc.clone().toJSON()\<close> should deep-equal \<^verbatim>\<open>doc.toJSON()\<close>, also with nested
  Documents at depth 2 and more. Take \<^verbatim>\<open>new Document({x: new Document({a: {$id: 'n'}})})\<close>:
  the inner Document has no \<^verbatim>\<open>$id\<close> of its own and holds a Document that has one. The
  export of the original is made of plain objects only. The clone is built from that
  export, where \<^verbatim>\<open>x\<close> is a plain object without \<^verbatim>\<open>$id\<close>: it stays a plain object, the
  object under \<^verbatim>\<open>a\<close> is made a Document again, and \<^verbatim>\<open>toJSON\<close>, which does not look into
  plain objects, hands that Document instance out. The two exports differ at \<^verbatim>\<open>x.a\<close>.
\<close>

theorem C7_clone_changes_toJSON:
  "Document [(''a'', Obj [(''$id'', Str ''n'')])] = Inr [(''a'', DocV [(''$id'', Str ''n'')])] \<and>
   Document [(''x'', DocV [(''a'', DocV [(''$id'', Str ''n'')])])]
     = Inr [(''x'', DocV [(''a'', DocV [(''$id'', Str ''n'')])])] \<and>
   toJSON [(''x'', DocV [(''a'', DocV [(''$id'', Str ''n'')])])]
     = [(''x'', Obj [(''a'', Obj [(''$id'', Str ''n'')])])] \<and>
   clone [(''x'', DocV [(''a'', DocV [(''$id'', Str ''n'')])])]
     = Inr [(''x'', Obj [(''a'', DocV [(''$id'', Str ''n'')])])] \<and>
   toJSON [(''x'', Obj [(''a'', DocV [(''$id'', Str ''n'')])])]
     = [(''x'', Obj [(''a'', DocV [(''$id'', Str ''n'')])])] \<and>
   [(''x'', Obj [(''a'', DocV [(''$id'', Str ''n'')])])]
     \<noteq> [(''x'', Obj [(''a'', Obj [(''$id'', Str ''n'')])])]"
  by code_simp

section \<open>Properties of the store\<close>

lemma map_get_map_set: "map_get k (map_set k v m) = Some v"
  by (induction m) auto

lemma map_get_map_set_other: "k' \<noteq> k \<Longrightarrow> map_get k' (map_set k v m) = map_get k' m"
  by (induction m) auto

lemma map_set_keys: "map_get k m = Some old \<Longrightarrow> map fst (map_set k v m) = map fst m"
  by (induction m) (auto split: if_splits)

text \<open>
  Claim C4, as stated: every operation of the backend contract, called with the name of a
  collection that was never created, fails with a not-found error. It does not hold for
  the two reading operations: on an adapter without collections \<^verbatim>\<open>getDocument\<close> returns
  \<^verbatim>\<open>null\<close> and \<^verbatim>\<open>listDocuments\<close> returns the empty array.
\<close>

theorem C4_counterexample:
  "getDocument [] ''users'' ''a'' = ([], Inr None) \<and> listDocuments [] ''users'' [] = ([], Inr [])"
  by code_simp

text \<open>
  Claim C4, amended: for a collection name that is not in the store, \<^verbatim>\<open>createDocument\<close>,
  \<^verbatim>\<open>updateDocument\<close> and \<^verbatim>\<open>deleteDocument\<close> fail with the error of \<^verbatim>\<open>requireCollection\<close>,
  \<^verbatim>\<open>getDocument\<close> returns \<^verbatim>\<open>null\<close> and \<^verbatim>\<open>listDocuments\<close> returns the empty array; all
  five leave the store as it was.
\<close>

theorem C4_missing_collection:
  assumes "map_get collection collections = None"
  shows "createDocument collections collection document
           = (collections, Inl (collectionNotFound collection)) \<and>
         updateDocument collections collection document
           = (collections, Inl (collectionNotFound collection)) \<and>
         deleteDocument collections collection id'
           = (collections, Inl (collectionNotFound collection)) \<and>
         getDocument collections collection id' = (collections, Inr None) \<and>
         listDocuments collections collection queries = (collections, Inr [])"
  using assms
  by (simp add: createDocument_def updateDocument_def deleteDocument_def getDocument_def
      listDocuments_def requireCollection_def)

theorem C4_missing_collection_witness:
  "map_get ''users'' ([] :: MemoryAdapter) = None \<and>
   createDocument [] ''users'' [(''$id'', Str ''a'')] = ([], Inl (collectionNotFound ''users'')) \<and>
   deleteDocument [] ''users'' ''a'' = ([], Inl (collectionNotFound ''users'')) \<and>
   getDocument [] ''users'' ''a'' = ([], Inr None)"
  using C4_missing_collection [of "''users''" "[]" "[(''$id'', Str ''a'')]" "''a''" "[]"]
  by simp

text \<open>
  Claim C9. \<^verbatim>\<open>contains(attribute, operands)\<close> holds of a document iff, when the value of
  the attribute is an array, every operand is found among its items by the comparator
  (result 0), and otherwise the value compares equal (result 0) to some operand. Scenario
  E of the specification is the witness: \<^verbatim>\<open>contains("tags", ["a","b"])\<close> matches the
  tags \<^verbatim>\<open>["a","b","c"]\<close> and not the tags \<^verbatim>\<open>["a"]\<close>.
\<close>

theorem C9_contains:
  "evaluate document (Plain ''contains'' (Str attribute) operands) =
     Inr (if isArray (getAttribute document attribute)
          then (\<forall>operand \<in> set operands.
                  \<exists>item \<in> set (arrayItems (getAttribute document attribute)).
                    compareValues item operand = 0)
          else (\<exists>operand \<in> set operands.
                  compareValues (getAttribute document attribute) operand = 0))"
  by (simp add: containsValue_def list_all_iff list_ex_iff)

theorem C9_contains_witness:
  "Query_contains ''tags'' (Arr [Str ''a'', Str ''b''])
     = Inr (Plain ''contains'' (Str ''tags'') [Str ''a'', Str ''b'']) \<and>
   evaluate [(''tags'', Arr [Str ''a'', Str ''b'', Str ''c''])]
     (Plain ''contains'' (Str ''tags'') [Str ''a'', Str ''b'']) = Inr True \<and>
   evaluate [(''tags'', Arr [Str ''a''])]
     (Plain ''contains'' (Str ''tags'') [Str ''a'', Str ''b'']) = Inr False"
proof -
  have f: "Query_contains ''tags'' (Arr [Str ''a'', Str ''b''])
     = Inr (Plain ''contains'' (Str ''tags'') [Str ''a'', Str ''b''])"
    by code_simp
  have "evaluate [(''tags'', Arr [Str ''a'', Str ''b'', Str ''c''])]
     (Plain ''contains'' (Str ''tags'') [Str ''a'', Str ''b'']) =
     Inr (if isArray (getAttribute [(''tags'', Arr [Str ''a'', Str ''b'', Str ''c''])] ''tags'')
          then (\<forall>operand \<in> set [Str ''a'', Str ''b''].
                  \<exists>item \<in> set (arrayItems (getAttribute [(''tags'', Arr [Str ''a'', Str ''b'', Str ''c''])] ''tags'')).
                    compareValues item operand = 0)
          else (\<exists>operand \<in> set [Str ''a'', Str ''b''].
                  compareValues (getAttribute [(''tags'', Arr [Str ''a'', Str ''b'', Str ''c''])] ''tags'') operand = 0))"
    by (rule C9_contains)
  also have "\<dots> = Inr True" by code_simp
  finally have a: "evaluate [(''tags'', Arr [Str ''a'', Str ''b'', Str ''c''])]
     (Plain ''contains'' (Str ''tags'') [Str ''a'', Str ''b'']) = Inr True" .
  have "evaluate [(''tags'', Arr [Str ''a''])]
     (Plain ''contains'' (Str ''tags'') [Str ''a'', Str ''b'']) =
     Inr (if isArray (getAttribute [(''tags'', Arr [Str ''a''])] ''tags'')
          then (\<forall>operand \<in> set [Str ''a'', Str ''b''].
                  \<exists>item \<in> set (arrayItems (getAttribute [(''tags'', Arr [Str ''a''])] ''tags'')).
                    compareValues item operand = 0)
          else (\<exists>operand \<in> set [Str ''a'', Str ''b''].
                  compareValues (getAttribute [(''tags'', Arr [Str ''a''])] ''tags'') operand = 0))"
    by (rule C9_contains)
  also have "\<dots> = Inr False" by code_simp
  finally have b: "evaluate [(''tags'', Arr [Str ''a''])]
     (Plain ''contains'' (Str ''tags'') [Str ''a'', Str ''b'']) = Inr False" .
  from f a b show ?thesis by blast
qed

text \<open>
  Inside an existing collection the only exception of \<^verbatim>\<open>createDocument\<close> is the one of
  \<^verbatim>\<open>document.clone()\<close>, thrown before \<^verbatim>\<open>Map.set\<close> runs: the store is then untouched.
\<close>

lemma createDocument_clone_throws:
  assumes "map_get collection collections = Some stored" and "clone document = Inl e"
  shows "createDocument collections collection document = (collections, Inl e)"
    and "updateDocument collections collection document = (collections, Inl e)"
  using assms by (simp_all add: createDocument_def updateDocument_def requireCollection_def)

text \<open>
  Claim C10, as stated: in an existing collection, \<^verbatim>\<open>createDocument\<close> with a document whose
  id is already stored succeeds and replaces the stored document. The document
  \<^verbatim>\<open>new Document({$id: 'a'}).setAttribute('$permissions', 'x')\<close> has the id of a stored
  document, and \<^verbatim>\<open>createDocument\<close> throws the \<^verbatim>\<open>TypeError\<close> of its \<^verbatim>\<open>clone()\<close>; the stored
  document stays.
\<close>

theorem C10_counterexample:
  "Document [(''$id'', Str ''a'')] = Inr [(''$id'', Str ''a'')] \<and>
   setAttribute [(''$id'', Str ''a'')] ''$permissions'' (Str ''x'')
     = Inr [(''$id'', Str ''a''), (''$permissions'', Str ''x'')] \<and>
   map_get (getId [(''$id'', Str ''a''), (''$permissions'', Str ''x'')])
     [(Str ''a'', [(''$id'', Str ''a''), (''v'', Num 1)])]
     = Some [(''$id'', Str ''a''), (''v'', Num 1)] \<and>
   createDocument
      [(''users'', \<lparr> schema = \<lparr> name = ''users'', attributes = [], indexes = Some [] \<rparr>,
                    documents = [(Str ''a'', [(''$id'', Str ''a''), (''v'', Num 1)])] \<rparr>)]
      ''users'' [(''$id'', Str ''a''), (''$permissions'', Str ''x'')]
   = ([(''users'', \<lparr> schema = \<lparr> name = ''users'', attributes = [], indexes = Some [] \<rparr>,
                    documents = [(Str ''a'', [(''$id'', Str ''a''), (''v'', Num 1)])] \<rparr>)],
      Inl (TypeError ''$permissions must be an array''))"
proof -
  have 1: "Document [(''$id'', Str ''a'')] = Inr [(''$id'', Str ''a'')]" by code_simp
  have 2: "setAttribute [(''$id'', Str ''a'')] ''$permissions'' (Str ''x'')
     = Inr [(''$id'', Str ''a''), (''$permissions'', Str ''x'')]" by code_simp
  have 3: "map_get (getId [(''$id'', Str ''a''), (''$permissions'', Str ''x'')])
     [(Str ''a'', [(''$id'', Str ''a''), (''v'', Num 1)])]
     = Some [(''$id'', Str ''a''), (''v'', Num 1)]" by (simp add: getId_def)
  have c: "clone [(''$id'', Str ''a''), (''$permissions'', Str ''x'')]
     = Inl (TypeError ''$permissions must be an array'')" by code_simp
  have 4: "createDocument
      [(''users'', \<lparr> schema = \<lparr> name = ''users'', attributes = [], indexes = Some [] \<rparr>,
                    documents = [(Str ''a'', [(''$id'', Str ''a''), (''v'', Num 1)])] \<rparr>)]
      ''users'' [(''$id'', Str ''a''), (''$permissions'', Str ''x'')]
   = ([(''users'', \<lparr> schema = \<lparr> name = ''users'', attributes = [], indexes = Some [] \<rparr>,
                    documents = [(Str ''a'', [(''$id'', Str ''a''), (''v'', Num 1)])] \<rparr>)],
      Inl (TypeError ''$permissions must be an array''))"
    by (simp add: createDocument_def requireCollection_def c)
  from 1 2 3 4 show ?thesis by blast
qed

text \<open>
  Claim C10, amended. In an existing collection, \<^verbatim>\<open>createDocument\<close> with a document whose
  id is already stored behaves exactly as \<^verbatim>\<open>updateDocument\<close> and never raises a
  duplicate-id error. Provided \<^verbatim>\<open>document.clone()\<close> does not throw, the call succeeds: the
  entry under that id now holds a clone of the new document, the keys of the collection
  and their order are unchanged, and a clone is returned.
\<close>

theorem C10_create_is_upsert:
  assumes "map_get collection collections = Some stored"
    and "map_get (getId document) (documents stored) = Some old"
    and "clone document = Inr copy"
  shows "createDocument collections collection document
           = (map_set collection
                (stored\<lparr> documents := map_set (getId document) copy (documents stored) \<rparr>)
                collections,
              Inr copy) \<and>
         createDocument collections collection document
           = updateDocument collections collection document \<and>
         map_get (getId document) (map_set (getId document) copy (documents stored)) = Some copy \<and>
         map fst (map_set (getId document) copy (documents stored)) = map fst (documents stored) \<and>
         map_get collection
           (map_set collection
              (stored\<lparr> documents := map_set (getId document) copy (documents stored) \<rparr>)
              collections)
           = Some (stored\<lparr> documents := map_set (getId document) copy (documents stored) \<rparr>)"
  using assms
  by (simp add: createDocument_def updateDocument_def requireCollection_def map_get_map_set
      map_set_keys)

theorem C10_create_is_upsert_witness:
  "createDocument
      [(''users'', \<lparr> schema = \<lparr> name = ''users'', attributes = [], indexes = Some [] \<rparr>,
                    documents = [(Str ''a'', [(''$id'', Str ''a''), (''v'', Num 1)]),
                                 (Str ''b'', [(''$id'', Str ''b''), (''v'', Num 2)])] \<rparr>)]
      ''users'' [(''$id'', Str ''a''), (''v'', Num 3)]
   = ([(''users'', \<lparr> schema = \<lparr> name = ''users'', attributes = [], indexes = Some [] \<rparr>,
                    documents = [(Str ''a'', [(''$id'', Str ''a''), (''v'', Num 3)]),
                                 (Str ''b'', [(''$id'', Str ''b''), (''v'', Num 2)])] \<rparr>)],
      Inr [(''$id'', Str ''a''), (''v'', Num 3)])"
proof -
  let ?stored = "\<lparr> schema = \<lparr> name = ''users'', attributes = [], indexes = Some [] \<rparr>,
                    documents = [(Str ''a'', [(''$id'', Str ''a''), (''v'', Num 1)]),
                                 (Str ''b'', [(''$id'', Str ''b''), (''v'', Num 2)])] \<rparr>"
  let ?doc = "[(''$id'', Str ''a''), (''v'', Num 3)]"
  have g: "getId ?doc = Str ''a''" by (simp add: getId_def)
  have 1: "map_get ''users'' [(''users'', ?stored)] = Some ?stored" by simp
  have 2: "map_get (getId ?doc) (documents ?stored) = Some [(''$id'', Str ''a''), (''v'', Num 1)]"
    by (simp add: g)
  have 3: "clone ?doc = Inr ?doc" by code_simp
  have "createDocument [(''users'', ?stored)] ''users'' ?doc
          = (map_set ''users''
               (?stored\<lparr> documents := map_set (getId ?doc) ?doc (documents ?stored) \<rparr>)
               [(''users'', ?stored)],
             Inr ?doc)"
    using C10_create_is_upsert [OF 1 2 3] by (rule conjunct1)
  then show ?thesis by (simp add: g)
qed

section \<open>Properties of the comparators\<close>

text \<open>
  Two operands are alike when one of them is null or undefined, or both are numbers, or
  both are booleans, or both are strings after \<^verbatim>\<open>ToPrimitive\<close> (strings, arrays, objects).
  The numbers are those of the model, the integers: \<^verbatim>\<open>NaN\<close> is not one of them.
\<close>

fun isBoolean :: "jsval \<Rightarrow> bool" where
  "isBoolean (Bool b) = True"
| "isBoolean v = False"

definition alikeOperands :: "jsval \<Rightarrow> jsval \<Rightarrow> bool" where
  "alikeOperands a b =
     (nullish a \<or> nullish b \<or> (isNumber a \<and> isNumber b) \<or> (isBoolean a \<and> isBoolean b)
      \<or> (isString (ToPrimitive a) \<and> isString (ToPrimitive b)))"

lemma str_less_irrefl: "\<not> str_less s s"
  by (induction s) auto

lemma str_less_total: "s \<noteq> t \<Longrightarrow> \<not> str_less t s \<Longrightarrow> str_less s t"
proof (induction s t rule: str_less.induct)
  case (4 x xs y ys)
  then show ?case by (auto simp: of_char_eq_iff dest: linorder_neqE_nat)
qed auto

lemma str_less_asym: "str_less s t \<Longrightarrow> \<not> str_less t s"
  by (induction s t rule: str_less.induct) auto

lemma js_String_ToPrimitive: "isString (ToPrimitive v) \<Longrightarrow> js_String (ToPrimitive v) = js_String v"
  by (cases v) (auto simp: ToPrimitive_def)

lemma js_less_strings:
  "isString (ToPrimitive a) \<Longrightarrow> isString (ToPrimitive b) \<Longrightarrow>
     js_less a b = str_less (js_String a) (js_String b)"
  by (simp add: js_less_def Let_def js_String_ToPrimitive)

text \<open>
  Claim C1, as stated: the comparison made by \<^verbatim>\<open>compareDocuments\<close> (ascending, that is,
  before the direction changes the sign) agrees in sign with \<^verbatim>\<open>compareValues\<close> for every
  pair of attribute values. The two are written separately, \<^verbatim>\<open>compareDocuments\<close> with the
  operators \<^verbatim>\<open>>\<close> and \<^verbatim>\<open><\<close>, \<^verbatim>\<open>compareValues\<close> with a subtraction of numbers and otherwise
  a comparison of \<^verbatim>\<open>String(a)\<close> with \<^verbatim>\<open>String(b)\<close>. For the number 10 and the string
  \<^verbatim>\<open>"9"\<close> the first compares numbers (10 is above 9) and the second compares the strings
  \<^verbatim>\<open>"10"\<close> and \<^verbatim>\<open>"9"\<close> (\<^verbatim>\<open>"10"\<close> is below).
\<close>

theorem C1_counterexample:
  "sgn (compareDocuments [(''v'', Num 10)] [(''v'', Str ''9'')] [(Str ''v'', Asc)]) = 1 \<and>
   sgn (compareValues (getAttribute [(''v'', Num 10)] ''v'') (getAttribute [(''v'', Str ''9'')] ''v'')) = - 1"
  by code_simp

text \<open>
  Claim C1, amended: the two comparisons agree in sign whenever the two attribute values
  are alike in the sense above, the numbers being other than \<^verbatim>\<open>NaN\<close>; for values of
  different kinds (a number and a string, a boolean and a number) they need not, and
  neither for \<^verbatim>\<open>NaN\<close>, where \<^verbatim>\<open>compareValues\<close> returns \<^verbatim>\<open>NaN\<close> and
  \<^verbatim>\<open>compareDocuments\<close> returns 0.
\<close>

theorem C1_comparators_agree_on_alike_operands:
  assumes "alikeOperands (getAttribute a (js_String attribute)) (getAttribute b (js_String attribute))"
  shows "sgn (compareDocuments a b [(attribute, Asc)])
           = sgn (compareValues (getAttribute a (js_String attribute))
                                (getAttribute b (js_String attribute)))"
proof -
  define x where "x = getAttribute a (js_String attribute)"
  define y where "y = getAttribute b (js_String attribute)"
  have al: "alikeOperands x y" using assms by (simp add: x_def y_def)
  have cd: "compareDocuments a b [(attribute, Asc)] =
     (if strictEq x y then 0
      else if x = Undefined \<or> x = Null then - 1
      else if y = Undefined \<or> y = Null then 1
      else if js_less y x then 1
      else if js_less x y then - 1 else 0)"
    by (simp add: x_def y_def Let_def)
  have "sgn (if strictEq x y then 0
      else if x = Undefined \<or> x = Null then - 1
      else if y = Undefined \<or> y = Null then 1
      else if js_less y x then 1
      else if js_less x y then - 1 else (0::int)) = sgn (compareValues x y)"
  proof (cases "strictEq x y")
    case True
    then show ?thesis by (simp add: compareValues_def)
  next
    case ne: False
    show ?thesis
    proof (cases "nullish x")
      case True
      then have "x = Undefined \<or> x = Null" by (cases x) auto
      then show ?thesis using ne by (auto simp: compareValues_def)
    next
      case nx: False
      then have nx': "x \<noteq> Undefined" "x \<noteq> Null" by auto
      show ?thesis
      proof (cases "nullish y")
        case True
        then have "y = Undefined \<or> y = Null" by (cases y) auto
        then show ?thesis using ne nx' by (auto simp: compareValues_def)
      next
        case ny: False
        then have ny': "y \<noteq> Undefined" "y \<noteq> Null" by auto
        from al nx ny consider
            (num) "isNumber x" "isNumber y"
          | (bool) "isBoolean x" "isBoolean y"
          | (str) "isString (ToPrimitive x)" "isString (ToPrimitive y)"
          by (auto simp: alikeOperands_def)
        then show ?thesis
        proof cases
          case num
          then obtain m n where "x = Num m" "y = Num n"
            by (cases x; cases y) auto
          then show ?thesis using ne
            by (simp add: compareValues_def js_less_def ToPrimitive_def sgn_if)
        next
          case bool
          then obtain p q where "x = Bool p" "y = Bool q"
            by (cases x; cases y) auto
          then show ?thesis using ne
            by (cases p; cases q) (simp_all add: compareValues_def js_less_def ToPrimitive_def)
        next
          case str
          have nn: "\<not> (isNumber x \<and> isNumber y)"
            using str by (cases x) (auto simp: ToPrimitive_def)
          have jl: "js_less y x = str_less (js_String y) (js_String x)"
            "js_less x y = str_less (js_String x) (js_String y)"
            using str by (simp_all add: js_less_strings)
          have cv: "compareValues x y =
            (if js_String x = js_String y then 0
             else if str_less (js_String y) (js_String x) then 1 else - 1)"
          proof -
            from nn have nnF: "(isNumber x \<and> isNumber y) = False" by simp
            show ?thesis using ne nx' ny' by (simp add: compareValues_def Let_def nnF)
          qed
          show ?thesis
          proof (cases "js_String x = js_String y")
            case True
            then show ?thesis using ne nx' ny' str_less_irrefl [of "js_String y"]
              by (simp add: cv jl)
          next
            case False
            then show ?thesis
              using ne nx' ny' str_less_total [of "js_String x" "js_String y"]
                str_less_asym [of "js_String x" "js_String y"]
              by (cases "str_less (js_String y) (js_String x)") (auto simp: cv jl)
          qed
        qed
      qed
    qed
  qed
  then have "sgn (compareDocuments a b [(attribute, Asc)]) = sgn (compareValues x y)"
    by (simp only: cd)
  then show ?thesis unfolding x_def y_def .
qed

theorem C1_comparators_agree_witness:
  "alikeOperands (getAttribute [(''age'', Num 36)] (js_String (Str ''age'')))
                 (getAttribute [(''age'', Num 85)] (js_String (Str ''age''))) \<and>
   sgn (compareDocuments [(''age'', Num 36)] [(''age'', Num 85)] [(Str ''age'', Asc)]) = - 1 \<and>
   sgn (compareValues (Num 36) (Num 85)) = - 1"
proof -
  have h: "alikeOperands (getAttribute [(''age'', Num 36)] (js_String (Str ''age'')))
                 (getAttribute [(''age'', Num 85)] (js_String (Str ''age'')))"
    by (simp add: alikeOperands_def getAttribute_def)
  have v: "sgn (compareValues (Num 36) (Num 85)) = - 1" by (simp add: compareValues_def)
  show ?thesis using h v C1_comparators_agree_on_alike_operands [OF h]
    by (simp add: getAttribute_def)
qed

lemma set_insertSorted: "set (insertSorted cmp x xs) = insert x (set xs)"
  by (induction xs) auto

lemma mset_insertSorted: "mset (insertSorted cmp x xs) = add_mset x (mset xs)"
  by (induction xs) auto

lemma mset_sortWith: "mset (sortWith cmp xs) = mset xs"
  by (induction xs) (auto simp: sortWith_def mset_insertSorted)

lemma insertSorted_keeps_low_first:
  assumes "sorted_wrt (\<lambda>d e. P e \<longrightarrow> P d) xs"
    and "\<And>y. P y \<Longrightarrow> \<not> P x \<Longrightarrow> cmp x y > 0"
    and "\<And>y. P x \<Longrightarrow> \<not> P y \<Longrightarrow> cmp x y \<le> 0"
  shows "sorted_wrt (\<lambda>d e. P e \<longrightarrow> P d) (insertSorted cmp x xs)"
  using assms(1)
proof (induction xs)
  case Nil
  then show ?case by simp
next
  case (Cons y ys)
  show ?case
  proof (cases "cmp x y \<le> 0")
    case True
    have "P z \<longrightarrow> P x" if "z \<in> set (y # ys)" for z
    proof
      assume pz: "P z"
      have "P y" using that pz Cons.prems by auto
      then show "P x" using assms(2) [of y] True by force
    qed
    then show ?thesis using True Cons.prems by simp
  next
    case False
    have "P x \<longrightarrow> P y" using assms(3) [of y] False by force
    then show ?thesis using False Cons by (auto simp: set_insertSorted)
  qed
qed

lemma sortWith_low_first:
  assumes "\<And>x y. P y \<Longrightarrow> \<not> P x \<Longrightarrow> cmp x y > 0"
    and "\<And>x y. P x \<Longrightarrow> \<not> P y \<Longrightarrow> cmp x y \<le> 0"
  shows "sorted_wrt (\<lambda>d e. P e \<longrightarrow> P d) (sortWith cmp xs)"
proof (induction xs)
  case Nil
  show ?case by (simp add: sortWith_def)
next
  case (Cons x xs)
  have "sorted_wrt (\<lambda>d e. P e \<longrightarrow> P d) (insertSorted cmp x (sortWith cmp xs))"
    using Cons assms by (intro insertSorted_keeps_low_first) auto
  then show ?case by (simp add: sortWith_def)
qed

lemma filterDocuments_no_filters: "filterDocuments docs [] = Inr docs"
  by (induction docs) auto

lemma compareDocuments_missing:
  assumes "nullish (getAttribute a attribute)" and "\<not> nullish (getAttribute b attribute)"
  shows "compareDocuments a b ((Str attribute, Asc) # rest) = - 1"
    and "compareDocuments b a ((Str attribute, Asc) # rest) = 1"
    and "compareDocuments a b ((Str attribute, Desc) # rest) = 1"
    and "compareDocuments b a ((Str attribute, Desc) # rest) = - 1"
proof -
  have a: "getAttribute a attribute = Undefined \<or> getAttribute a attribute = Null"
    using assms(1) by (cases "getAttribute a attribute") auto
  have b: "getAttribute b attribute \<noteq> Undefined" "getAttribute b attribute \<noteq> Null"
    using assms(2) by auto
  have ne: "\<not> strictEq (getAttribute a attribute) (getAttribute b attribute)"
    "\<not> strictEq (getAttribute b attribute) (getAttribute a attribute)"
    using a b by (cases "getAttribute b attribute"; auto)+
  show "compareDocuments a b ((Str attribute, Asc) # rest) = - 1"
    "compareDocuments b a ((Str attribute, Asc) # rest) = 1"
    "compareDocuments a b ((Str attribute, Desc) # rest) = 1"
    "compareDocuments b a ((Str attribute, Desc) # rest) = - 1"
    using a b ne by (auto simp: Let_def)
qed

lemma applyQueries_order_only:
  "applyQueries docs [Plain ''orderAsc'' (Str attribute) []]
     = Inr (sortWith (\<lambda>a b. compareDocuments a b [(Str attribute, Asc)]) docs)"
  "applyQueries docs [Plain ''orderDesc'' (Str attribute) []]
     = Inr (sortWith (\<lambda>a b. compareDocuments a b [(Str attribute, Desc)]) docs)"
  by (simp_all add: applyQueries_def partitionQueries_def partitionStep_def initialPartition_def
      filterDocuments_no_filters orderStage_def offsetStage_def limitStage_def selectStage_def)

text \<open>
  Claim C6. When exactly one of two documents lacks the sort attribute (or holds null) and
  the other holds a concrete value, \<^verbatim>\<open>compareDocuments\<close> puts the one without value first
  under \<^verbatim>\<open>asc\<close> and last under \<^verbatim>\<open>desc\<close>, whichever of the two is its first argument and
  whatever sort keys follow. Sorting any list of documents by that one key with
  \<^verbatim>\<open>orderAsc\<close> therefore returns a rearrangement in which no document with a value stands
  before one without, and with \<^verbatim>\<open>orderDesc\<close> one in which no document without a value
  stands before one with a value.
\<close>

theorem C6_missing_sorts_lowest:
  "(nullish (getAttribute a attribute) \<and> \<not> nullish (getAttribute b attribute) \<longrightarrow>
      compareDocuments a b ((Str attribute, Asc) # rest) = - 1 \<and>
      compareDocuments b a ((Str attribute, Asc) # rest) = 1 \<and>
      compareDocuments a b ((Str attribute, Desc) # rest) = 1 \<and>
      compareDocuments b a ((Str attribute, Desc) # rest) = - 1) \<and>
   (\<exists>ascending descending.
      applyQueries docs [Plain ''orderAsc'' (Str attribute) []] = Inr ascending \<and>
      applyQueries docs [Plain ''orderDesc'' (Str attribute) []] = Inr descending \<and>
      mset ascending = mset docs \<and> mset descending = mset docs \<and>
      sorted_wrt (\<lambda>d e. nullish (getAttribute e attribute) \<longrightarrow> nullish (getAttribute d attribute))
        ascending \<and>
      sorted_wrt (\<lambda>d e. nullish (getAttribute d attribute) \<longrightarrow> nullish (getAttribute e attribute))
        descending)"
proof -
  have cmp: "nullish (getAttribute a attribute) \<and> \<not> nullish (getAttribute b attribute) \<longrightarrow>
      compareDocuments a b ((Str attribute, Asc) # rest) = - 1 \<and>
      compareDocuments b a ((Str attribute, Asc) # rest) = 1 \<and>
      compareDocuments a b ((Str attribute, Desc) # rest) = 1 \<and>
      compareDocuments b a ((Str attribute, Desc) # rest) = - 1"
    using compareDocuments_missing [of a attribute b rest] by simp
  let ?asc = "sortWith (\<lambda>a b. compareDocuments a b [(Str attribute, Asc)]) docs"
  let ?desc = "sortWith (\<lambda>a b. compareDocuments a b [(Str attribute, Desc)]) docs"
  have 1: "sorted_wrt (\<lambda>d e. nullish (getAttribute e attribute) \<longrightarrow> nullish (getAttribute d attribute)) ?asc"
    by (rule sortWith_low_first [where P = "\<lambda>d. nullish (getAttribute d attribute)"])
       (simp_all add: compareDocuments_missing del: compareDocuments.simps)
  have 2: "sorted_wrt (\<lambda>d e. \<not> nullish (getAttribute e attribute) \<longrightarrow> \<not> nullish (getAttribute d attribute)) ?desc"
    by (rule sortWith_low_first [where P = "\<lambda>d. \<not> nullish (getAttribute d attribute)"])
       (simp_all add: compareDocuments_missing del: compareDocuments.simps)
  have 3: "sorted_wrt (\<lambda>d e. nullish (getAttribute d attribute) \<longrightarrow> nullish (getAttribute e attribute)) ?desc"
    using 2 by (rule sorted_wrt_mono_rel [rotated]) auto
  have lst: "\<exists>ascending descending.
      applyQueries docs [Plain ''orderAsc'' (Str attribute) []] = Inr ascending \<and>
      applyQueries docs [Plain ''orderDesc'' (Str attribute) []] = Inr descending \<and>
      mset ascending = mset docs \<and> mset descending = mset docs \<and>
      sorted_wrt (\<lambda>d e. nullish (getAttribute e attribute) \<longrightarrow> nullish (getAttribute d attribute))
        ascending \<and>
      sorted_wrt (\<lambda>d e. nullish (getAttribute d attribute) \<longrightarrow> nullish (getAttribute e attribute))
        descending"
    using 1 3 by (simp add: applyQueries_order_only mset_sortWith)
  from cmp lst show ?thesis by (rule conjI)
qed

theorem C6_missing_sorts_lowest_witness:
  "nullish (getAttribute [(''name'', Str ''x'')] ''age'') \<and>
   \<not> nullish (getAttribute [(''age'', Num 36)] ''age'') \<and>
   compareDocuments [(''name'', Str ''x'')] [(''age'', Num 36)] [(Str ''age'', Asc)] = - 1 \<and>
   compareDocuments [(''name'', Str ''x'')] [(''age'', Num 36)] [(Str ''age'', Desc)] = 1 \<and>
   applyQueries [[(''age'', Num 36)], [(''name'', Str ''x'')]] [Plain ''orderAsc'' (Str ''age'') []]
     = Inr [[(''name'', Str ''x'')], [(''age'', Num 36)]] \<and>
   applyQueries [[(''name'', Str ''x'')], [(''age'', Num 36)]] [Plain ''orderDesc'' (Str ''age'') []]
     = Inr [[(''age'', Num 36)], [(''name'', Str ''x'')]]"
proof -
  have h: "nullish (getAttribute [(''name'', Str ''x'')] ''age'') \<and>
     \<not> nullish (getAttribute [(''age'', Num 36)] ''age'')"
    by (simp add: getAttribute_def)
  have c: "compareDocuments [(''name'', Str ''x'')] [(''age'', Num 36)] [(Str ''age'', Asc)] = - 1 \<and>
     compareDocuments [(''name'', Str ''x'')] [(''age'', Num 36)] [(Str ''age'', Desc)] = 1"
    using C6_missing_sorts_lowest [of "[(''name'', Str ''x'')]" "''age''" "[(''age'', Num 36)]" "[]" "[]"] h
    by blast
  have l: "applyQueries [[(''age'', Num 36)], [(''name'', Str ''x'')]] [Plain ''orderAsc'' (Str ''age'') []]
       = Inr [[(''name'', Str ''x'')], [(''age'', Num 36)]] \<and>
     applyQueries [[(''name'', Str ''x'')], [(''age'', Num 36)]] [Plain ''orderDesc'' (Str ''age'') []]
       = Inr [[(''age'', Num 36)], [(''name'', Str ''x'')]]"
    by code_simp
  from h c l show ?thesis by blast
qed

section \<open>Properties of Document construction\<close>

text \<open>
  Every exception of the constructor is a \<^verbatim>\<open>TypeError\<close>. An entry of the input is
  rejected when its key is \<^verbatim>\<open>$id\<close> and its value is neither null, undefined nor a string,
  or its key is \<^verbatim>\<open>$permissions\<close> and its value is neither null, undefined nor an array.
\<close>

fun isTypeError :: "error \<Rightarrow> bool" where
  "isTypeError (TypeError message) = True"
| "isTypeError (Error message) = False"

lemma prepare_errors:
  "prepareValue v = Inl e \<Longrightarrow> isTypeError e"
  "prepareItems xs = Inl e \<Longrightarrow> isTypeError e"
  "prepareEntries c es = Inl e \<Longrightarrow> isTypeError e"
  "replace d es = Inl e \<Longrightarrow> isTypeError e"
proof (induction v and xs and c es and d es arbitrary: e and e and e and e
    rule: prepareValue_prepareItems_prepareEntries_replace.induct)
  case (15 data key v rest)
  then show ?case by (auto split: if_splits sum.splits)
qed (auto split: if_splits sum.splits)

definition rejectedEntry :: "string \<times> jsval \<Rightarrow> bool" where
  "rejectedEntry entry =
     ((fst entry = ''$id'' \<and> \<not> nullish (snd entry) \<and> \<not> isString (snd entry)) \<or>
      (fst entry = ''$permissions'' \<and> \<not> nullish (snd entry) \<and> \<not> isArray (snd entry)))"

lemma replace_rejects:
  "entry \<in> set es \<Longrightarrow> rejectedEntry entry \<Longrightarrow> \<exists>e. replace data es = Inl e \<and> isTypeError e"
proof (induction es arbitrary: data)
  case Nil
  then show ?case by simp
next
  case (Cons kv es)
  obtain key v where kv: "kv = (key, v)" by (cases kv)
  show ?case
  proof (cases "rejectedEntry (key, v)")
    case True
    then have "v \<noteq> Undefined" "v \<noteq> Null" by (auto simp: rejectedEntry_def)
    then show ?thesis using True kv by (auto simp: rejectedEntry_def)
  next
    case False
    then have "entry \<in> set es" using Cons.prems kv by auto
    then have ih: "\<exists>e. replace data' es = Inl e \<and> isTypeError e" for data'
      using Cons.IH Cons.prems(2) by blast
    show ?thesis
    proof (cases "prepareValue v")
      case (Inl e)
      then have "isTypeError e" by (rule prepare_errors(1))
      then show ?thesis using Inl kv False ih
        by (auto simp: rejectedEntry_def)
    next
      case (Inr v')
      then show ?thesis using kv False ih
        by (auto simp: rejectedEntry_def)
    qed
  qed
qed

text \<open>\<^verbatim>\<open>setAttribute\<close> runs \<^verbatim>\<open>prepareValue\<close> only: it stores a number under \<^verbatim>\<open>$id\<close>, and the
  document so obtained can no longer be cloned.\<close>

lemma setAttribute_does_not_validate:
  "setAttribute [] ''$id'' (Num 42) = Inr [(''$id'', Num 42)] \<and>
   setAttribute [] ''$permissions'' (Str ''read(any)'') = Inr [(''$permissions'', Str ''read(any)'')] \<and>
   clone [(''$id'', Num 42)] = Inl (TypeError ''$id must be of type string'')"
  by code_simp

text \<open>
  Claim C3, as stated: assigning to \<^verbatim>\<open>$id\<close> a value that is not a string fails with a type
  error, on construction and through \<^verbatim>\<open>setAttribute\<close>. The constructor guards its test
  with \<^verbatim>\<open>value !== undefined && value !== null\<close>: \<^verbatim>\<open>new Document({$id: null})\<close> succeeds
  and stores \<^verbatim>\<open>null\<close>, which is not a string; likewise for \<^verbatim>\<open>$permissions\<close>.
\<close>

theorem C3_counterexample:
  "\<not> isString Null \<and> Document [(''$id'', Null)] = Inr [(''$id'', Null)] \<and>
   \<not> isArray Null \<and> Document [(''$permissions'', Null)] = Inr [(''$permissions'', Null)]"
  by code_simp

text \<open>
  Claim C3, amended: constructing a Document from an input that holds, under \<^verbatim>\<open>$id\<close>, a
  value that is neither null nor undefined nor a string, or under \<^verbatim>\<open>$permissions\<close> a value
  that is neither null nor undefined nor an array, fails with a \<^verbatim>\<open>TypeError\<close>.
\<close>

theorem C3_construction_rejects:
  assumes "entry \<in> set input" and "rejectedEntry entry"
  shows "\<exists>message. Document input = Inl (TypeError message)"
proof -
  obtain e where "replace [] input = Inl e" "isTypeError e"
    using replace_rejects [OF assms] by blast
  then show ?thesis by (cases e) (auto simp: Document_def)
qed

theorem C3_construction_rejects_witness:
  "(''$id'', Num 42) \<in> set [(''name'', Str ''Ada''), (''$id'', Num 42)] \<and>
   rejectedEntry (''$id'', Num 42) \<and>
   Document [(''name'', Str ''Ada''), (''$id'', Num 42)] = Inl (TypeError ''$id must be of type string'') \<and>
   Document [(''$permissions'', Str ''read(any)'')] = Inl (TypeError ''$permissions must be an array'')"
proof -
  have 1: "(''$id'', Num 42) \<in> set [(''name'', Str ''Ada''), (''$id'', Num 42)]" by simp
  have 2: "rejectedEntry (''$id'', Num 42)" by (simp add: rejectedEntry_def)
  obtain message where m: "Document [(''name'', Str ''Ada''), (''$id'', Num 42)] = Inl (TypeError message)"
    using C3_construction_rejects [OF 1 2] by blast
  have "Document [(''name'', Str ''Ada''), (''$id'', Num 42)] = Inl (TypeError ''$id must be of type string'')"
    by code_simp
  with m have "message = ''$id must be of type string''" by simp
  with m have 3: "Document [(''name'', Str ''Ada''), (''$id'', Num 42)] = Inl (TypeError ''$id must be of type string'')"
    by simp
  have 4: "Document [(''$permissions'', Str ''read(any)'')] = Inl (TypeError ''$permissions must be an array'')"
    by code_simp
  from 1 2 3 4 show ?thesis by blast
qed

section \<open>Properties of serialisation\<close>

text \<open>
  \<open>jsonPlain\<close> are the values that JSON can write: null, booleans, numbers, strings, and
  arrays and plain objects of such. A query is in wire form when its method is a valid
  operator name, its attribute is a string, the operands of \<^verbatim>\<open>and\<close>/\<^verbatim>\<open>or\<close> are in wire
  form, and every other operand is a Document or a JSON value (that is, a JSON value once
  \<^verbatim>\<open>toJSON\<close> has replaced a Document by its id). \<open>reduceOperands\<close> is the query with
  each Document operand replaced by its id.
\<close>

fun jsonPlain :: "jsval \<Rightarrow> bool"
  and jsonPlainItems :: "jsval list \<Rightarrow> bool"
  and jsonPlainProps :: "DocumentData \<Rightarrow> bool"
where
  "jsonPlain Null = True"
| "jsonPlain (Bool b) = True"
| "jsonPlain (Num n) = True"
| "jsonPlain (Str s) = True"
| "jsonPlain (Arr items) = jsonPlainItems items"
| "jsonPlain (Obj props) = jsonPlainProps props"
| "jsonPlain Undefined = False"
| "jsonPlain (DocV d) = False"
| "jsonPlain (QueryV q) = False"
| "jsonPlainItems [] = True"
| "jsonPlainItems (v # vs) = (jsonPlain v \<and> jsonPlainItems vs)"
| "jsonPlainProps [] = True"
| "jsonPlainProps ((k, v) # ps) = (jsonPlain v \<and> jsonPlainProps ps)"

fun wireQuery :: "query \<Rightarrow> bool" where
  "wireQuery (Plain m a vs) =
     (m \<in> set VALID_METHODS \<and> m \<notin> set LOGICAL_METHODS \<and> isString a \<and>
      jsonPlainItems (map reduceDocument vs))"
| "wireQuery (Logical m a qs) =
     (m \<in> set LOGICAL_METHODS \<and> isString a \<and> list_all wireQuery qs)"

fun reduceOperands :: "query \<Rightarrow> query" where
  "reduceOperands (Plain m a vs) = Plain m a (map reduceDocument vs)"
| "reduceOperands (Logical m a qs) = Logical m a (map reduceOperands qs)"

lemma JSON_roundtrip_plain:
  "jsonPlain v \<Longrightarrow> JSON_roundtrip v = Some v"
  "jsonPlainItems vs \<Longrightarrow> JSON_roundtrip_items vs = vs"
  "jsonPlainProps ps \<Longrightarrow> JSON_roundtrip_props ps = ps"
  by (induction v and vs and ps rule: jsonPlain_jsonPlainItems_jsonPlainProps.induct) auto

lemma LOGICAL_valid: "m \<in> set LOGICAL_METHODS \<Longrightarrow> m \<in> set VALID_METHODS"
  by (auto simp: LOGICAL_METHODS_def VALID_METHODS_def)

lemma jsonPlain_reduceDocument: "jsonPlain v \<Longrightarrow> reduceDocument v = v"
  by (cases v) auto

lemma jsonPlainItems_reduce: "jsonPlainItems vs \<Longrightarrow> map reduceDocument vs = vs"
  by (induction vs) (auto simp: jsonPlain_reduceDocument)

text \<open>What \<^verbatim>\<open>JSON.parse\<close> returns for the text of a query.\<close>

lemma roundtrip_Query_toJSON:
  "wireQuery q \<Longrightarrow>
     JSON_roundtrip (Obj (Query_toJSON q)) = Some (Obj (Query_toJSON (reduceOperands q)))"
proof (induction q rule: wireQuery.induct)
  case (1 m a vs)
  then obtain s where a: "a = Str s" by (cases a) auto
  from 1 have p: "jsonPlainItems (map reduceDocument vs)" by simp
  show ?case
    using JSON_roundtrip_plain(2) [OF p] jsonPlainItems_reduce [OF p] by (simp add: a)
next
  case (2 m a qs)
  then obtain s where a: "a = Str s" by (cases a) auto
  have "list_all wireQuery qs" using 2 by simp
  then have "JSON_roundtrip_items (map (\<lambda>q. Obj (Query_toJSON q)) qs)
      = map (\<lambda>q. Obj (Query_toJSON (reduceOperands q))) qs"
    using 2(1)
  proof (induction qs)
    case Nil
    show ?case by simp
  next
    case (Cons x xs)
    have "JSON_roundtrip (Obj (Query_toJSON x)) = Some (Obj (Query_toJSON (reduceOperands x)))"
      using Cons.prems by simp
    moreover have "JSON_roundtrip_items (map (\<lambda>q. Obj (Query_toJSON q)) xs)
      = map (\<lambda>q. Obj (Query_toJSON (reduceOperands q))) xs"
      using Cons by simp
    ultimately show ?case by (simp del: JSON_roundtrip.simps)
  qed
  then show ?case by (simp add: a comp_def)
qed


fun shaped :: "query \<Rightarrow> bool" where
  "shaped (Plain m a vs) = (m \<notin> set LOGICAL_METHODS)"
| "shaped (Logical m a qs) = (m \<in> set LOGICAL_METHODS \<and> list_all shaped qs)"

lemma clone_shaped: "shaped q \<Longrightarrow> Query_clone q = Inr q"
proof (induction q rule: shaped.induct)
  case (1 m a vs)
  then show ?case by simp
next
  case (2 m a qs)
  have "list_all shaped qs" using 2 by simp
  then have "newValues (map QueryV qs) = Inr qs"
    using 2(1)
  proof (induction qs)
    case Nil
    show ?case by simp
  next
    case (Cons x xs)
    have "Query_clone x = Inr x" using Cons.prems by simp
    moreover have "newValues (map QueryV xs) = Inr xs" using Cons by simp
    ultimately show ?case by (simp del: Query_clone.simps)
  qed
  then show ?case using 2 by simp
qed

lemma newValues_shaped: "list_all shaped qs \<Longrightarrow> newValues (map QueryV qs) = Inr qs"
proof (induction qs)
  case Nil
  show ?case by simp
next
  case (Cons x xs)
  have "Query_clone x = Inr x" using Cons.prems by (simp add: clone_shaped del: Query_clone.simps)
  then show ?case using Cons by (simp del: Query_clone.simps)
qed

lemma shaped_reduceOperands: "wireQuery q \<Longrightarrow> shaped (reduceOperands q)"
  by (induction q rule: wireQuery.induct) (auto simp: list_all_iff)

lemma fromJSON_Query_toJSON:
  "wireQuery q \<Longrightarrow> fromJSON (Obj (Query_toJSON (reduceOperands q))) = Inr (reduceOperands q)"
proof (induction q rule: wireQuery.induct)
  case (1 m a vs)
  then obtain s where a: "a = Str s" by (cases a) auto
  from 1 have p: "jsonPlainItems (map reduceDocument vs)" by simp
  have r: "map reduceDocument (map reduceDocument vs) = map reduceDocument vs"
    using p by (rule jsonPlainItems_reduce)
  show ?case using 1
    by (simp add: a jsonMethod_def jsonValues_def jsonAttribute_def r del: map_map)
next
  case (2 m a qs)
  then obtain s where a: "a = Str s" by (cases a) auto
  have m: "m \<in> set LOGICAL_METHODS" "m \<in> set VALID_METHODS"
    using 2 LOGICAL_valid by auto
  have w: "list_all wireQuery qs" using 2 by simp
  then have e: "fromJSON_entries (map (\<lambda>q. Obj (Query_toJSON (reduceOperands q))) qs)
      = Inr (map reduceOperands qs)"
    using 2(1)
  proof (induction qs)
    case Nil
    show ?case by simp
  next
    case (Cons x xs)
    have "fromJSON (Obj (Query_toJSON (reduceOperands x))) = Inr (reduceOperands x)"
      using Cons.prems by simp
    moreover have "fromJSON_entries (map (\<lambda>q. Obj (Query_toJSON (reduceOperands q))) xs)
      = Inr (map reduceOperands xs)"
      using Cons by simp
    ultimately show ?case by (simp del: fromJSON.simps)
  qed
  have sh: "list_all shaped (map reduceOperands qs)"
    using w shaped_reduceOperands by (auto simp: list_all_iff)
  have n: "newValues (map QueryV (map reduceOperands qs)) = Inr (map reduceOperands qs)"
    using sh by (rule newValues_shaped)
  have jm: "jsonMethod (Obj (Query_toJSON (reduceOperands (Logical m a qs)))) = Str m"
    by (simp add: jsonMethod_def)
  have jv: "jsonValues (Obj (Query_toJSON (reduceOperands (Logical m a qs))))
      = Arr (map (\<lambda>q. Obj (Query_toJSON (reduceOperands q))) qs)"
    by (simp add: jsonValues_def a comp_def)
  have ja: "jsonAttribute (Obj (Query_toJSON (reduceOperands (Logical m a qs)))) = a"
    by (simp add: jsonAttribute_def a)
  show ?case
    unfolding fromJSON.simps [of "Obj (Query_toJSON (reduceOperands (Logical m a qs)))"] jm jv ja
    using m e n by (simp del: fromJSON.simps newValues.simps)
qed

fun isDocument :: "jsval \<Rightarrow> bool" where
  "isDocument (DocV d) = True"
| "isDocument v = False"

fun documentFree :: "query \<Rightarrow> bool" where
  "documentFree (Plain m a vs) = list_all (\<lambda>v. \<not> isDocument v) vs"
| "documentFree (Logical m a qs) = list_all documentFree qs"

lemma reduceDocument_id: "\<not> isDocument v \<Longrightarrow> reduceDocument v = v"
  by (cases v) auto

lemma reduceOperands_documentFree: "documentFree q \<Longrightarrow> reduceOperands q = q"
  by (induction q rule: documentFree.induct)
     (auto simp: list_all_iff reduceDocument_id map_idI)

text \<open>
  Claim C5, as stated: \<^verbatim>\<open>Query.parse(q.toString())\<close> reproduces method, attribute and values
  of every constructible query. \<^verbatim>\<open>Query.equal('a', [undefined])\<close> is constructible; JSON
  writes the undefined operand as \<^verbatim>\<open>null\<close>, and the parsed query holds \<^verbatim>\<open>null\<close>.
\<close>

theorem C5_undefined_operand_counterexample:
  "Query_equal ''a'' [Undefined] = Inr (Plain ''equal'' (Str ''a'') [Undefined]) \<and>
   parse_toString (Plain ''equal'' (Str ''a'') [Undefined]) = Inr (Plain ''equal'' (Str ''a'') [Null]) \<and>
   getValues (Plain ''equal'' (Str ''a'') [Null]) \<noteq> getValues (Plain ''equal'' (Str ''a'') [Undefined])"
  by code_simp

text \<open>
  Claim C5, amended: for every query in wire form, \<^verbatim>\<open>Query.parse(q.toString())\<close> succeeds
  and returns the query with the same method, the same attribute and, recursively through
  \<^verbatim>\<open>and\<close>/\<^verbatim>\<open>or\<close>, the same operands, except that an operand that is a Document comes back
  as the Document's id; a query without Document operands comes back unchanged.
\<close>

theorem C5_parse_toString:
  assumes "wireQuery q"
  shows "parse_toString q = Inr (reduceOperands q) \<and>
         (documentFree q \<longrightarrow> parse_toString q = Inr q)"
proof -
  have 1: "parse_toString q = Inr (reduceOperands q)"
    using assms
    by (simp add: parse_toString_def roundtrip_Query_toJSON fromJSON_Query_toJSON
        del: fromJSON.simps JSON_roundtrip.simps)
  then have "documentFree q \<longrightarrow> parse_toString q = Inr q"
    by (simp add: reduceOperands_documentFree)
  with 1 show ?thesis by (rule conjI)
qed

theorem C5_parse_toString_witness:
  "wireQuery (Logical ''and'' (Str [])
      [Plain ''equal'' (Str ''owner'') [DocV [(''$id'', Str ''u1''), (''name'', Str ''Ada'')]],
       Plain ''greaterThanEqual'' (Str ''age'') [Num 60]]) \<and>
   parse_toString (Logical ''and'' (Str [])
      [Plain ''equal'' (Str ''owner'') [DocV [(''$id'', Str ''u1''), (''name'', Str ''Ada'')]],
       Plain ''greaterThanEqual'' (Str ''age'') [Num 60]])
     = Inr (Logical ''and'' (Str [])
      [Plain ''equal'' (Str ''owner'') [Str ''u1''],
       Plain ''greaterThanEqual'' (Str ''age'') [Num 60]]) \<and>
   documentFree (Plain ''greaterThanEqual'' (Str ''age'') [Num 60]) \<and>
   parse_toString (Plain ''greaterThanEqual'' (Str ''age'') [Num 60])
     = Inr (Plain ''greaterThanEqual'' (Str ''age'') [Num 60])"
proof -
  let ?q = "Logical ''and'' (Str [])
      [Plain ''equal'' (Str ''owner'') [DocV [(''$id'', Str ''u1''), (''name'', Str ''Ada'')]],
       Plain ''greaterThanEqual'' (Str ''age'') [Num 60]]"
  let ?p = "Plain ''greaterThanEqual'' (Str ''age'') [Num 60]"
  have w: "wireQuery ?q" by code_simp
  have w': "wireQuery ?p" by code_simp
  have d: "documentFree ?p" by simp
  have r: "reduceOperands ?q = Logical ''and'' (Str [])
      [Plain ''equal'' (Str ''owner'') [Str ''u1''],
       Plain ''greaterThanEqual'' (Str ''age'') [Num 60]]"
    by (simp add: getId_def)
  have 1: "parse_toString ?q = Inr (reduceOperands ?q)"
    using C5_parse_toString [OF w] by (rule conjunct1)
  have 2: "parse_toString ?p = Inr ?p"
    using C5_parse_toString [OF w'] d by blast
  from w d 1 2 show ?thesis unfolding r by blast
qed

section \<open>Properties of pagination\<close>

text \<open>
  A paging query is one with the method \<^verbatim>\<open>limit\<close> or \<^verbatim>\<open>offset\<close>. The other queries of a
  list do not touch the two variables \<^verbatim>\<open>limit\<close> and \<^verbatim>\<open>offset\<close> of \<^verbatim>\<open>applyQueries\<close>, and a
  paging query touches nothing else.
\<close>

definition paging :: "query \<Rightarrow> bool" where
  "paging q = (getMethod q = ''limit'' \<or> getMethod q = ''offset'')"

lemma partitionStep_offset_commute:
  "\<not> paging q \<Longrightarrow> partitionStep (p\<lparr> offset := k \<rparr>) q = (partitionStep p q)\<lparr> offset := k \<rparr>"
  by (simp add: partitionStep_def paging_def)

lemma partitionStep_limit_commute:
  "\<not> paging q \<Longrightarrow> partitionStep (p\<lparr> limit := l \<rparr>) q = (partitionStep p q)\<lparr> limit := l \<rparr>"
  by (simp add: partitionStep_def paging_def)

lemma foldl_offset_commute:
  "\<forall>q \<in> set qs. \<not> paging q \<Longrightarrow>
     foldl partitionStep (p\<lparr> offset := k \<rparr>) qs = (foldl partitionStep p qs)\<lparr> offset := k \<rparr>"
  by (induction qs arbitrary: p) (simp_all add: partitionStep_offset_commute)

lemma foldl_limit_commute:
  "\<forall>q \<in> set qs. \<not> paging q \<Longrightarrow>
     foldl partitionStep (p\<lparr> limit := l \<rparr>) qs = (foldl partitionStep p qs)\<lparr> limit := l \<rparr>"
  by (induction qs arbitrary: p) (simp_all add: partitionStep_limit_commute)

lemma partitionStep_keeps_paging:
  "\<not> paging q \<Longrightarrow> offset (partitionStep p q) = offset p \<and> limit (partitionStep p q) = limit p"
  by (simp add: partitionStep_def paging_def)

lemma foldl_keeps_paging:
  "\<forall>q \<in> set qs. \<not> paging q \<Longrightarrow>
     offset (foldl partitionStep p qs) = offset p \<and> limit (foldl partitionStep p qs) = limit p"
  by (induction qs arbitrary: p) (simp_all add: partitionStep_keeps_paging)

lemma partitionStep_offset:
  "partitionStep p (Plain ''offset'' a [Num k]) = p\<lparr> offset := k \<rparr>"
  by (simp add: partitionStep_def)

lemma partitionStep_limit:
  "partitionStep p (Plain ''limit'' a [Num n]) = p\<lparr> limit := Some n \<rparr>"
  by (simp add: partitionStep_def)

lemma partition_unpaged:
  assumes "\<forall>q \<in> set qs. \<not> paging q"
  shows "offset (partitionQueries qs) = 0" and "limit (partitionQueries qs) = None"
  using foldl_keeps_paging [OF assms, of initialPartition]
  by (simp_all add: partitionQueries_def initialPartition_def)

lemma partition_offset_limit:
  assumes "\<forall>q \<in> set (as @ bs @ cs). \<not> paging q"
  shows "partitionQueries (as @ Plain ''offset'' a [Num k] # bs @ Plain ''limit'' a' [Num n] # cs)
           = (partitionQueries (as @ bs @ cs))\<lparr> offset := k, limit := Some n \<rparr>"
    and "partitionQueries (as @ Plain ''limit'' a' [Num n] # bs @ Plain ''offset'' a [Num k] # cs)
           = (partitionQueries (as @ bs @ cs))\<lparr> offset := k, limit := Some n \<rparr>"
    and "partitionQueries (as @ Plain ''offset'' a [Num k] # bs @ cs)
           = (partitionQueries (as @ bs @ cs))\<lparr> offset := k \<rparr>"
    and "partitionQueries (as @ Plain ''limit'' a' [Num n] # bs @ cs)
           = (partitionQueries (as @ bs @ cs))\<lparr> limit := Some n \<rparr>"
proof -
  have b: "\<forall>q \<in> set bs. \<not> paging q" and c: "\<forall>q \<in> set cs. \<not> paging q"
    using assms by auto
  show "partitionQueries (as @ Plain ''offset'' a [Num k] # bs @ Plain ''limit'' a' [Num n] # cs)
           = (partitionQueries (as @ bs @ cs))\<lparr> offset := k, limit := Some n \<rparr>"
    by (simp add: partitionQueries_def partitionStep_offset partitionStep_limit
        foldl_offset_commute [OF b] foldl_offset_commute [OF c] foldl_limit_commute [OF c])
  show "partitionQueries (as @ Plain ''limit'' a' [Num n] # bs @ Plain ''offset'' a [Num k] # cs)
           = (partitionQueries (as @ bs @ cs))\<lparr> offset := k, limit := Some n \<rparr>"
    by (simp add: partitionQueries_def partitionStep_offset partitionStep_limit
        foldl_limit_commute [OF b] foldl_offset_commute [OF c] foldl_limit_commute [OF c])
  show "partitionQueries (as @ Plain ''offset'' a [Num k] # bs @ cs)
           = (partitionQueries (as @ bs @ cs))\<lparr> offset := k \<rparr>"
    by (simp add: partitionQueries_def partitionStep_offset foldl_offset_commute [OF b]
        foldl_offset_commute [OF c])
  show "partitionQueries (as @ Plain ''limit'' a' [Num n] # bs @ cs)
           = (partitionQueries (as @ bs @ cs))\<lparr> limit := Some n \<rparr>"
    by (simp add: partitionQueries_def partitionStep_limit foldl_limit_commute [OF b]
        foldl_limit_commute [OF c])
qed

lemma selectAll_take:
  "selectAll xs sel = Inr ys \<Longrightarrow> selectAll (take n xs) sel = Inr (take n ys)"
proof (induction xs arbitrary: ys n)
  case Nil
  then show ?case by simp
next
  case (Cons x xs)
  then show ?case by (cases n) (auto split: sum.splits)
qed

lemma selectAll_drop:
  "selectAll xs sel = Inr ys \<Longrightarrow> selectAll (drop n xs) sel = Inr (drop n ys)"
proof (induction xs arbitrary: ys n)
  case Nil
  then show ?case by simp
next
  case (Cons x xs)
  then show ?case by (cases n) (auto split: sum.splits)
qed

lemma selectAll_slice:
  "selectAll xs sel = Inr ys \<Longrightarrow> selectAll (take n (drop k xs)) sel = Inr (take n (drop k ys))"
  by (rule selectAll_take [OF selectAll_drop])

lemma selectStage_slice:
  assumes "selectStage p xs = Inr ys" and "select p' = select p"
  shows "selectStage p' (take n (drop k xs)) = Inr (take n (drop k ys))"
  using assms by (auto simp: selectStage_def selectAll_slice split: option.splits if_splits)

lemma sliceFrom_nat: "sliceFrom (int k) xs = drop k xs"
  by (simp add: sliceFrom_def)

lemma sliceTo_nat: "sliceTo (int n) xs = take n xs"
  by (simp add: sliceTo_def)


lemma selectStage_take:
  assumes "selectStage p xs = Inr ys" and "select p' = select p"
  shows "selectStage p' (take n xs) = Inr (take n ys)"
  using assms by (auto simp: selectStage_def selectAll_take split: option.splits if_splits)

lemma selectStage_drop:
  assumes "selectStage p xs = Inr ys" and "select p' = select p"
  shows "selectStage p' (drop k xs) = Inr (drop k ys)"
  using assms by (auto simp: selectStage_def selectAll_drop split: option.splits if_splits)

lemma applyQueries_paged:
  assumes "applyQueries docs qs = Inr result"
    and "offset (partitionQueries qs) = 0" and "limit (partitionQueries qs) = None"
    and "filters p' = filters (partitionQueries qs)" and "order p' = order (partitionQueries qs)"
    and "select p' = select (partitionQueries qs)"
    and "partitionQueries qs' = p'"
  shows "offset p' = int k \<Longrightarrow> limit p' = Some (int n) \<Longrightarrow>
           applyQueries docs qs' = Inr (take n (drop k result))"
    and "offset p' = int k \<Longrightarrow> limit p' = None \<Longrightarrow> applyQueries docs qs' = Inr (drop k result)"
    and "offset p' = 0 \<Longrightarrow> limit p' = Some (int n) \<Longrightarrow> applyQueries docs qs' = Inr (take n result)"
proof -
  let ?p = "partitionQueries qs"
  obtain filtered where f: "filterDocuments docs (filters ?p) = Inr filtered"
    and s: "selectStage ?p (orderStage ?p filtered) = Inr result"
    using assms(1,2,3)
    by (auto simp: applyQueries_def Let_def offsetStage_def limitStage_def split: sum.splits)
  have o: "orderStage p' filtered = orderStage ?p filtered"
    using assms(5) by (simp add: orderStage_def)
  have f': "filterDocuments docs (filters p') = Inr filtered"
    using f assms(4) by simp
  have st: "selectStage p' (take n (orderStage ?p filtered)) = Inr (take n result)"
    using s assms(6) by (rule selectStage_take)
  have sd: "selectStage p' (drop k (orderStage ?p filtered)) = Inr (drop k result)"
    using s assms(6) by (rule selectStage_drop)
  have sl: "selectStage p' (take n (drop k (orderStage ?p filtered))) = Inr (take n (drop k result))"
    using s assms(6) by (rule selectStage_slice)
  have off: "offsetStage p' xs = drop k xs" if "offset p' = int k" for xs
    using that by (cases "k = 0") (simp_all add: offsetStage_def sliceFrom_nat)
  have lim: "limitStage p' xs = take n xs" if "limit p' = Some (int n)" for xs
    using that by (simp add: limitStage_def sliceTo_nat)
  have nolim: "limitStage p' xs = xs" if "limit p' = None" for xs
    using that by (simp add: limitStage_def)
  show "applyQueries docs qs' = Inr (take n (drop k result))"
    if "offset p' = int k" "limit p' = Some (int n)"
    by (simp add: applyQueries_def Let_def assms(7) f' o off [OF that(1)] lim [OF that(2)] sl)
  show "applyQueries docs qs' = Inr (drop k result)"
    if "offset p' = int k" "limit p' = None"
    by (simp add: applyQueries_def Let_def assms(7) f' o off [OF that(1)] nolim [OF that(2)] sd)
  show "applyQueries docs qs' = Inr (take n result)"
    if "offset p' = 0" "limit p' = Some (int n)"
    using that
    by (simp add: applyQueries_def Let_def assms(7) f' o offsetStage_def lim [OF that(2)] st)
qed


lemma applyQueries_unpaged:
  assumes "applyQueries docs qs = Inr result"
    and "offset (partitionQueries qs) = 0" and "limit (partitionQueries qs) = None"
  shows "\<exists>filtered. filterDocuments docs (filters (partitionQueries qs)) = Inr filtered \<and>
           selectStage (partitionQueries qs) (orderStage (partitionQueries qs) filtered) = Inr result"
  using assms
  by (auto simp: applyQueries_def Let_def offsetStage_def limitStage_def split: sum.splits)

text \<open>
  Claim C8. Take any documents and any query list without paging queries, and let
  \<open>result\<close> be what the evaluator returns for it: by the last conjunct this is the whole
  filtered and ordered sequence, projected if the list has a \<^verbatim>\<open>select\<close> (offset defaults
  to 0 and limit to no limit). With \<^verbatim>\<open>offset(k)\<close> and \<^verbatim>\<open>limit(n)\<close> put anywhere into the
  list, in either order, the evaluator returns \<open>take n (drop k result)\<close>, the slice from
  \<open>k\<close> to \<open>k + n\<close>, which is empty when \<open>k\<close> is at least the length of \<open>result\<close>; with
  \<^verbatim>\<open>offset(k)\<close> alone it returns \<open>drop k result\<close>, with \<^verbatim>\<open>limit(n)\<close> alone
  \<open>take n result\<close>. Here \<open>k\<close> and \<open>n\<close> are natural numbers, as counts of elements are.
\<close>

theorem C8_pagination:
  assumes "\<forall>q \<in> set (as @ bs @ cs). \<not> paging q"
    and "applyQueries docs (as @ bs @ cs) = Inr result"
  shows "applyQueries docs
           (as @ Plain ''offset'' (Str []) [Num (int k)] # bs @ Plain ''limit'' (Str []) [Num (int n)] # cs)
           = Inr (take n (drop k result)) \<and>
         applyQueries docs
           (as @ Plain ''limit'' (Str []) [Num (int n)] # bs @ Plain ''offset'' (Str []) [Num (int k)] # cs)
           = Inr (take n (drop k result)) \<and>
         (length result \<le> k \<longrightarrow>
            applyQueries docs
              (as @ Plain ''offset'' (Str []) [Num (int k)] # bs @ Plain ''limit'' (Str []) [Num (int n)] # cs)
              = Inr []) \<and>
         applyQueries docs (as @ Plain ''offset'' (Str []) [Num (int k)] # bs @ cs)
           = Inr (drop k result) \<and>
         applyQueries docs (as @ Plain ''limit'' (Str []) [Num (int n)] # bs @ cs)
           = Inr (take n result) \<and>
         (\<exists>filtered.
            filterDocuments docs (filters (partitionQueries (as @ bs @ cs))) = Inr filtered \<and>
            selectStage (partitionQueries (as @ bs @ cs))
              (orderStage (partitionQueries (as @ bs @ cs)) filtered) = Inr result)"
proof -
  let ?p = "partitionQueries (as @ bs @ cs)"
  have u: "offset ?p = 0" "limit ?p = None"
    using partition_unpaged [OF assms(1)] by simp_all
  note pq = partition_offset_limit [OF assms(1)]
  have 1: "applyQueries docs
           (as @ Plain ''offset'' (Str []) [Num (int k)] # bs @ Plain ''limit'' (Str []) [Num (int n)] # cs)
           = Inr (take n (drop k result))"
    by (rule applyQueries_paged(1) [OF assms(2) u _ _ _ pq(1)]) simp_all
  have 2: "applyQueries docs
           (as @ Plain ''limit'' (Str []) [Num (int n)] # bs @ Plain ''offset'' (Str []) [Num (int k)] # cs)
           = Inr (take n (drop k result))"
    by (rule applyQueries_paged(1) [OF assms(2) u _ _ _ pq(2)]) simp_all
  have 3: "applyQueries docs (as @ Plain ''offset'' (Str []) [Num (int k)] # bs @ cs)
           = Inr (drop k result)"
    by (rule applyQueries_paged(2) [OF assms(2) u _ _ _ pq(3)]) (simp_all add: u)
  have 4: "applyQueries docs (as @ Plain ''limit'' (Str []) [Num (int n)] # bs @ cs)
           = Inr (take n result)"
    by (rule applyQueries_paged(3) [OF assms(2) u _ _ _ pq(4)]) (simp_all add: u)
  have 5: "\<exists>filtered.
            filterDocuments docs (filters ?p) = Inr filtered \<and>
            selectStage ?p (orderStage ?p filtered) = Inr result"
    using assms(2) u by (rule applyQueries_unpaged)
  from 1 have 6: "length result \<le> k \<longrightarrow>
            applyQueries docs
              (as @ Plain ''offset'' (Str []) [Num (int k)] # bs @ Plain ''limit'' (Str []) [Num (int n)] # cs)
              = Inr []"
    by simp
  from 1 2 6 3 4 5 show ?thesis by blast
qed

theorem C8_pagination_witness:
  "Query_offset 1 = Inr (Plain ''offset'' (Str []) [Num 1]) \<and>
   Query_limit 2 = Inr (Plain ''limit'' (Str []) [Num 2]) \<and>
   applyQueries
     [[(''n'', Num 30)], [(''n'', Num 10)], [(''n'', Num 40)], [(''n'', Num 20)]]
     [Plain ''orderAsc'' (Str ''n'') []]
     = Inr [[(''n'', Num 10)], [(''n'', Num 20)], [(''n'', Num 30)], [(''n'', Num 40)]] \<and>
   applyQueries
     [[(''n'', Num 30)], [(''n'', Num 10)], [(''n'', Num 40)], [(''n'', Num 20)]]
     [Plain ''orderAsc'' (Str ''n'') [], Plain ''offset'' (Str []) [Num 1],
      Plain ''limit'' (Str []) [Num 2]]
     = Inr [[(''n'', Num 20)], [(''n'', Num 30)]]"
proof -
  let ?docs = "[[(''n'', Num 30)], [(''n'', Num 10)], [(''n'', Num 40)], [(''n'', Num 20)]]"
  let ?as = "[Plain ''orderAsc'' (Str ''n'') []]"
  have f: "Query_offset 1 = Inr (Plain ''offset'' (Str []) [Num 1]) \<and>
     Query_limit 2 = Inr (Plain ''limit'' (Str []) [Num 2])"
    by code_simp
  have h1: "\<forall>q \<in> set (?as @ [] @ []). \<not> paging q" by (simp add: paging_def)
  have h2: "applyQueries ?docs (?as @ [] @ [])
      = Inr [[(''n'', Num 10)], [(''n'', Num 20)], [(''n'', Num 30)], [(''n'', Num 40)]]"
    by code_simp
  have "applyQueries ?docs
      (?as @ Plain ''offset'' (Str []) [Num (int 1)] # [] @ Plain ''limit'' (Str []) [Num (int 2)] # [])
      = Inr (take 2 (drop 1 [[(''n'', Num 10)], [(''n'', Num 20)], [(''n'', Num 30)], [(''n'', Num 40)]]))"
    using C8_pagination [OF h1 h2, of 1 2] by (rule conjunct1)
  then have p: "applyQueries ?docs
      [Plain ''orderAsc'' (Str ''n'') [], Plain ''offset'' (Str []) [Num 1],
       Plain ''limit'' (Str []) [Num 2]]
      = Inr [[(''n'', Num 20)], [(''n'', Num 30)]]"
    by simp
  from h2 have h2': "applyQueries ?docs ?as
      = Inr [[(''n'', Num 10)], [(''n'', Num 20)], [(''n'', Num 30)], [(''n'', Num 40)]]"
    by simp
  from f h2' p show ?thesis by blast
qed

end
